theory Spec2Isabelle
  imports Main
begin

section \<open>Data model of \<open>web/src/cypress/support/profile.ts\<close>\<close>

text \<open>
  The interfaces of the global declaration block.  Optional properties (\<open>name?: string\<close>)
  are \<open>option\<close> fields; record fields carry a prefix because Isabelle field names are
  global.
\<close>

datatype UserRole = user | admin

record Profile =
  p_id :: string
  p_name :: string
  p_email :: string
  p_role :: UserRole

record UserOptions =
  uo_name :: "string option"
  uo_email :: "string option"
  uo_role :: "UserRole option"

datatype ContactMethodType = SMS | VOICE

record ContactMethod =
  cm_id :: string
  cm_userID :: string
  cm_name :: string
  cm_type :: ContactMethodType
  cm_value :: string

record ContactMethodOptions =
  cmo_userID :: "string option"
  cmo_name :: "string option"
  cmo_type :: "ContactMethodType option"
  cmo_value :: "string option"

record NotificationRule =
  nr_id :: string
  nr_userID :: string
  nr_contactMethodID :: string
  nr_contactMethod :: ContactMethod
  nr_delayMinutes :: int

record NotificationRuleOptions =
  nro_userID :: "string option"
  nro_delayMinutes :: "int option"
  nro_contactMethodID :: "string option"
  nro_contactMethod :: "ContactMethodOptions option"

text \<open>The empty object literal \<open>{}\<close> at each options type.\<close>

definition no_UserOptions :: UserOptions where
  "no_UserOptions = \<lparr>uo_name = None, uo_email = None, uo_role = None\<rparr>"

definition no_ContactMethodOptions :: ContactMethodOptions where
  "no_ContactMethodOptions =
     \<lparr>cmo_userID = None, cmo_name = None, cmo_type = None, cmo_value = None\<rparr>"

definition no_NotificationRuleOptions :: NotificationRuleOptions where
  "no_NotificationRuleOptions =
     \<lparr>nro_userID = None, nro_delayMinutes = None, nro_contactMethodID = None,
      nro_contactMethod = None\<rparr>"

section \<open>The collaborators: Chance, \<open>cy.sql\<close>, \<open>cy.graphql2\<close>, \<open>cy.fixture\<close>\<close>

text \<open>
  The variables of the GraphQL documents of the file, and the data each document selects.
  A request is identified by the operation its document names; a response has the shape of
  the document's field selection.
\<close>

record CreateUserContactMethodInput =
  cmi_userID :: string
  cmi_name :: string
  cmi_type :: ContactMethodType
  cmi_value :: string

record CreateUserNotificationRuleInput =
  nri_userID :: string
  nri_contactMethodID :: string
  nri_delayMinutes :: int

record TargetInput =
  ti_type :: string
  ti_id :: string

datatype gql_request =
    CreateUserContactMethod CreateUserContactMethodInput
  | CreateUserNotificationRule CreateUserNotificationRuleInput
  | UserContactMethods string
  | DeleteAll "TargetInput list"

record ContactMethodData =
  cmd_id :: string
  cmd_name :: string
  cmd_type :: ContactMethodType
  cmd_value :: string

record NotificationRuleData =
  nrd_id :: string
  nrd_delayMinutes :: int
  nrd_contactMethodID :: string
  nrd_contactMethod :: ContactMethodData

datatype gql_response =
    CreateUserContactMethodData ContactMethodData
  | CreateUserNotificationRuleData NotificationRuleData
  | UserContactMethodsData "string list"
  | DeleteAllData bool

datatype error =
    FixtureError string
  | RemoteError string
  | TypeError

text \<open>
  Everything outside the file is a parameter: the Chance generator \<open>c\<close>, the remote
  gateway behind \<open>cy.sql\<close> and \<open>cy.graphql2\<close>, and the fixture loader.  The generator's
  state and the remote system's state live in one world \<open>'w\<close>, which every call may
  change.  Fixture files are static during a run, so loading one does not depend on the
  world.
\<close>

record 'w env =
  c_guid :: "'w \<Rightarrow> string \<times> 'w"
  c_word :: "nat \<Rightarrow> 'w \<Rightarrow> string \<times> 'w"
  c_email :: "'w \<Rightarrow> string \<times> 'w"
  c_integer :: "int \<Rightarrow> int \<Rightarrow> 'w \<Rightarrow> int \<times> 'w"
  c_pickone :: "ContactMethodType list \<Rightarrow> 'w \<Rightarrow> ContactMethodType \<times> 'w"
  sql :: "string \<Rightarrow> 'w \<Rightarrow> (error + unit) \<times> 'w"
  graphql2 :: "gql_request \<Rightarrow> 'w \<Rightarrow> (error + gql_response) \<times> 'w"
  fixture :: "string \<Rightarrow> error + Profile"

text \<open>
  The state of a run: the world, and the remote operations issued so far, oldest first.
  An operation is recorded when it is issued, whether or not it then fails.
\<close>

datatype remote_op = Sql string | Graphql2 gql_request

record 'w state =
  world :: 'w
  trace :: "remote_op list"

text \<open>
  A Cypress command either yields a value, fails the chain with an error, or never yields
  (\<open>Diverged\<close>: the recursion budget of the self-invoking provisioners ran out).
\<close>

datatype 'a outcome = Returned 'a | Failed error | Diverged

type_synonym ('w, 'a) cmd = "'w state \<Rightarrow> 'a outcome \<times> 'w state"

definition cy_then :: "('w, 'a) cmd \<Rightarrow> ('a \<Rightarrow> ('w, 'b) cmd) \<Rightarrow> ('w, 'b) cmd" where
  "cy_then m f s =
     (case m s of
        (Returned a, s') \<Rightarrow> f a s'
      | (Failed e, s') \<Rightarrow> (Failed e, s')
      | (Diverged, s') \<Rightarrow> (Diverged, s'))"

definition cy_wrap :: "'a \<Rightarrow> ('w, 'a) cmd" where
  "cy_wrap a s = (Returned a, s)"

definition cy_throw :: "error \<Rightarrow> ('w, 'a) cmd" where
  "cy_throw e s = (Failed e, s)"

fun of_sum :: "error + 'a \<Rightarrow> 'a outcome" where
  "of_sum (Inl e) = Failed e"
| "of_sum (Inr a) = Returned a"

definition cy_sql :: "'w env \<Rightarrow> string \<Rightarrow> ('w, unit) cmd" where
  "cy_sql env q s =
     (case sql env q (world s) of
        (r, w') \<Rightarrow> (of_sum r, \<lparr>world = w', trace = trace s @ [Sql q]\<rparr>))"

definition cy_graphql2 :: "'w env \<Rightarrow> gql_request \<Rightarrow> ('w, gql_response) cmd" where
  "cy_graphql2 env req s =
     (case graphql2 env req (world s) of
        (r, w') \<Rightarrow> (of_sum r, \<lparr>world = w', trace = trace s @ [Graphql2 req]\<rparr>))"

definition cy_fixture :: "'w env \<Rightarrow> string \<Rightarrow> ('w, Profile) cmd" where
  "cy_fixture env name s = (of_sum (fixture env name), s)"

text \<open>A Chance call: it changes the world and issues no remote operation.\<close>

definition draw :: "('w \<Rightarrow> 'a \<times> 'w) \<Rightarrow> 'w state \<Rightarrow> 'a \<times> 'w state" where
  "draw g s = (case g (world s) of (a, w') \<Rightarrow> (a, s\<lparr>world := w'\<rparr>))"

section \<open>JavaScript values\<close>

text \<open>
  \<open>a || b\<close> yields \<open>b\<close>, and only then evaluates it, when \<open>a\<close> is falsy: \<open>undefined\<close>,
  the empty string or the number \<open>0\<close>.  The role and type literals are non-empty strings,
  so they are falsy only when absent.
\<close>

fun truthy_string :: "string option \<Rightarrow> bool" where
  "truthy_string None = False"
| "truthy_string (Some v) = (v \<noteq> [])"

fun truthy_number :: "int option \<Rightarrow> bool" where
  "truthy_number None = False"
| "truthy_number (Some v) = (v \<noteq> 0)"

definition or_string :: "string option \<Rightarrow> ('w state \<Rightarrow> string \<times> 'w state) \<Rightarrow>
    'w state \<Rightarrow> string \<times> 'w state" where
  "or_string a b s = (if truthy_string a then (the a, s) else b s)"

definition or_number :: "int option \<Rightarrow> ('w state \<Rightarrow> int \<times> 'w state) \<Rightarrow>
    'w state \<Rightarrow> int \<times> 'w state" where
  "or_number a b s = (if truthy_number a then (the a, s) else b s)"

definition or_value :: "'a option \<Rightarrow> ('w state \<Rightarrow> 'a \<times> 'w state) \<Rightarrow>
    'w state \<Rightarrow> 'a \<times> 'w state" where
  "or_value a b s = (case a of Some v \<Rightarrow> (v, s) | None \<Rightarrow> b s)"

text \<open>The decimal text of an integer, as string concatenation renders a number.\<close>

definition digit_char :: "nat \<Rightarrow> char" where
  "digit_char d = char_of (48 + d)"

fun string_of_nat :: "nat \<Rightarrow> string" where
  "string_of_nat n =
     (if n < 10 then [digit_char n] else string_of_nat (n div 10) @ [digit_char (n mod 10)])"

definition string_of_int :: "int \<Rightarrow> string" where
  "string_of_int i =
     (if i < 0 then CHR ''-'' # string_of_nat (nat (- i)) else string_of_nat (nat i))"

text \<open>\<open>Array.prototype.join\<close>.\<close>

fun join :: "string \<Rightarrow> string list \<Rightarrow> string" where
  "join sep [] = []"
| "join sep [x] = x"
| "join sep (x # y # ys) = x @ sep @ join sep (y # ys)"

definition string_of_role :: "UserRole \<Rightarrow> string" where
  "string_of_role r = (case r of user \<Rightarrow> ''user'' | admin \<Rightarrow> ''admin'')"

text \<open>\<open>p[0]\<close>: \<open>undefined\<close> on an empty array.\<close>

definition first_elem :: "'a list \<Rightarrow> 'a option" where
  "first_elem xs = (case xs of [] \<Rightarrow> None | x # _ \<Rightarrow> Some x)"

section \<open>The provisioners\<close>

subsection \<open>\<open>createManyUsers\<close> and \<open>createUser\<close>\<close>

text \<open>
  The callback of \<open>users.map\<close>: the properties of the object literal are evaluated in
  order, so the identifier is drawn first, then a word if the name is falsy, then an email
  if the email is falsy.
\<close>

definition new_profile :: "'w env \<Rightarrow> UserOptions \<Rightarrow> 'w state \<Rightarrow> Profile \<times> 'w state" where
  "new_profile env u s =
     (case draw (c_guid env) s of (i, s1) \<Rightarrow>
      case or_string (uo_name u) (draw (c_word env 12)) s1 of (n, s2) \<Rightarrow>
      case or_string (uo_email u) (draw (c_email env)) s2 of (e, s3) \<Rightarrow>
      case or_value (uo_role u) (Pair user) s3 of (r, s4) \<Rightarrow>
        (\<lparr>p_id = i, p_name = n, p_email = e, p_role = r\<rparr>, s4))"

fun new_profiles :: "'w env \<Rightarrow> UserOptions list \<Rightarrow> 'w state \<Rightarrow> Profile list \<times> 'w state" where
  "new_profiles env [] s = ([], s)"
| "new_profiles env (u # us) s =
     (case new_profile env u s of (p, s1) \<Rightarrow>
      case new_profiles env us s1 of (ps, s2) \<Rightarrow> (p # ps, s2))"

definition value_tuple :: "Profile \<Rightarrow> string" where
  "value_tuple p =
     ''('' @ [CHR 0x27] @ p_id p @ [CHR 0x27] @ '', '' @ [CHR 0x27] @ p_name p @ [CHR 0x27] @
     '', '' @ [CHR 0x27] @ p_email p @ [CHR 0x27] @ '', '' @
     [CHR 0x27] @ string_of_role (p_role p) @ [CHR 0x27] @ '')''"

definition dbQuery :: "Profile list \<Rightarrow> string" where
  "dbQuery profiles =
     ''insert into users (id, name, email, role) values'' @
     join '','' (map value_tuple profiles) @ '';''"

definition createManyUsers :: "'w env \<Rightarrow> UserOptions list \<Rightarrow> ('w, Profile list) cmd" where
  "createManyUsers env users s =
     (case new_profiles env users s of (profiles, s1) \<Rightarrow>
        cy_then (cy_sql env (dbQuery profiles)) (\<lambda>_. cy_wrap profiles) s1)"

definition createUser :: "'w env \<Rightarrow> UserOptions option \<Rightarrow> ('w, Profile option) cmd" where
  "createUser env u =
     (let user = (case u of None \<Rightarrow> no_UserOptions | Some v \<Rightarrow> v)
      in cy_then (createManyUsers env [user]) (\<lambda>p. cy_wrap (first_elem p)))"

subsection \<open>\<open>addContactMethod\<close>\<close>

text \<open>
  The function invokes itself after resolving a missing \<open>userID\<close>.  The first argument
  bounds the depth of self-invocation: each invocation passes one less to the invocations
  it makes, and an invocation with budget \<open>0\<close> does not return.
\<close>

definition stamp_contactMethod :: "string \<Rightarrow> ContactMethodData \<Rightarrow> ContactMethod" where
  "stamp_contactMethod userID res =
     \<lparr>cm_id = cmd_id res, cm_userID = userID, cm_name = cmd_name res,
      cm_type = cmd_type res, cm_value = cmd_value res\<rparr>"

fun addContactMethod ::
    "nat \<Rightarrow> 'w env \<Rightarrow> ContactMethodOptions option \<Rightarrow> ('w, ContactMethod) cmd" where
  "addContactMethod 0 env cmo s = (Diverged, s)"
| "addContactMethod (Suc n) env cmo s =
     (let cm = (case cmo of None \<Rightarrow> no_ContactMethodOptions | Some v \<Rightarrow> v) in
      if \<not> truthy_string (cmo_userID cm) then
        cy_then (cy_fixture env ''profile'')
          (\<lambda>prof. addContactMethod n env (Some (cm\<lparr>cmo_userID := Some (p_id prof)\<rparr>))) s
      else
        case draw (c_integer env 3000000 3999999) s of (suffix, s1) \<Rightarrow>
        let newPhone = ''+1763'' @ string_of_int suffix in
        case or_string (cmo_name cm)
               (\<lambda>t. case draw (c_word env 8) t of (w, t') \<Rightarrow> (''SM CM '' @ w, t')) s1
        of (name, s2) \<Rightarrow>
        case or_value (cmo_type cm) (draw (c_pickone env [SMS, VOICE])) s2 of (type, s3) \<Rightarrow>
        case or_string (cmo_value cm) (Pair newPhone) s3 of (val, s4) \<Rightarrow>
          cy_then
            (cy_graphql2 env (CreateUserContactMethod
               \<lparr>cmi_userID = the (cmo_userID cm), cmi_name = name, cmi_type = type,
                cmi_value = val\<rparr>))
            (\<lambda>res. case res of
               CreateUserContactMethodData r \<Rightarrow>
                 cy_wrap (stamp_contactMethod (the (cmo_userID cm)) r)
             | _ \<Rightarrow> cy_throw TypeError) s4)"

subsection \<open>\<open>addNotificationRule\<close>\<close>

definition stamp_notificationRule :: "string \<Rightarrow> NotificationRuleData \<Rightarrow> NotificationRule" where
  "stamp_notificationRule userID res =
     \<lparr>nr_id = nrd_id res, nr_userID = userID,
      nr_contactMethodID = nrd_contactMethodID res,
      nr_contactMethod = stamp_contactMethod userID (nrd_contactMethod res),
      nr_delayMinutes = nrd_delayMinutes res\<rparr>"

text \<open>\<open>{ ...nr.contactMethod, userID: nr.userID }\<close>: spreading \<open>undefined\<close> adds nothing.\<close>

definition spread_contactMethod ::
    "ContactMethodOptions option \<Rightarrow> string option \<Rightarrow> ContactMethodOptions" where
  "spread_contactMethod cmo userID =
     (case cmo of None \<Rightarrow> no_ContactMethodOptions | Some v \<Rightarrow> v)\<lparr>cmo_userID := userID\<rparr>"

fun addNotificationRule ::
    "nat \<Rightarrow> 'w env \<Rightarrow> NotificationRuleOptions option \<Rightarrow> ('w, NotificationRule) cmd" where
  "addNotificationRule 0 env nro s = (Diverged, s)"
| "addNotificationRule (Suc n) env nro s =
     (let nr = (case nro of None \<Rightarrow> no_NotificationRuleOptions | Some v \<Rightarrow> v) in
      if \<not> truthy_string (nro_userID nr) then
        cy_then (cy_fixture env ''profile'')
          (\<lambda>prof. addNotificationRule n env (Some (nr\<lparr>nro_userID := Some (p_id prof)\<rparr>))) s
      else if \<not> truthy_string (nro_contactMethodID nr) then
        cy_then
          (addContactMethod n env
             (Some (spread_contactMethod (nro_contactMethod nr) (nro_userID nr))))
          (\<lambda>cm. addNotificationRule n env
             (Some (nr\<lparr>nro_contactMethodID := Some (cm_id cm)\<rparr>))) s
      else
        case or_number (nro_delayMinutes nr) (draw (c_integer env 0 15)) s of
          (delayMinutes, s1) \<Rightarrow>
          cy_then
            (cy_graphql2 env (CreateUserNotificationRule
               \<lparr>nri_userID = the (nro_userID nr),
                nri_contactMethodID = the (nro_contactMethodID nr),
                nri_delayMinutes = delayMinutes\<rparr>))
            (\<lambda>res. case res of
               CreateUserNotificationRuleData r \<Rightarrow>
                 cy_wrap (stamp_notificationRule (the (nro_userID nr)) r)
             | _ \<Rightarrow> cy_throw TypeError) s1)"

subsection \<open>\<open>clearContactMethods\<close>\<close>



text \<open>The remote operations a command issued: what it appended to the trace.\<close>

definition issued :: "'w state \<Rightarrow> 'w state \<Rightarrow> remote_op list" where
  "issued s s' = drop (length (trace s)) (trace s')"

section \<open>A concrete environment\<close>

text \<open>
  A small world to run the provisioners in: a counter that drives the generator and
  numbers the entities the remote system creates, and the contact methods the remote
  system holds, each with its owner.
\<close>

record test_world =
  tick :: nat
  held :: "(string \<times> string) list"

definition next_tick :: "test_world \<Rightarrow> test_world" where
  "next_tick w = w\<lparr>tick := Suc (tick w)\<rparr>"

fun test_graphql2 :: "gql_request \<Rightarrow> test_world \<Rightarrow> (error + gql_response) \<times> test_world" where
  "test_graphql2 (CreateUserContactMethod i) w =
     (let new_id = ''cm'' @ string_of_nat (tick w) in
      (Inr (CreateUserContactMethodData
         \<lparr>cmd_id = new_id, cmd_name = cmi_name i, cmd_type = cmi_type i,
          cmd_value = cmi_value i\<rparr>),
       w\<lparr>tick := Suc (tick w), held := held w @ [(new_id, cmi_userID i)]\<rparr>))"
| "test_graphql2 (CreateUserNotificationRule i) w =
     (Inr (CreateUserNotificationRuleData
        \<lparr>nrd_id = ''nr'' @ string_of_nat (tick w), nrd_delayMinutes = nri_delayMinutes i,
         nrd_contactMethodID = nri_contactMethodID i,
         nrd_contactMethod =
           \<lparr>cmd_id = nri_contactMethodID i, cmd_name = ''held'', cmd_type = SMS,
            cmd_value = ''+17633000000''\<rparr>\<rparr>),
      next_tick w)"
| "test_graphql2 (UserContactMethods u) w =
     (Inr (UserContactMethodsData (map fst (filter (\<lambda>c. snd c = u) (held w)))), w)"
| "test_graphql2 (DeleteAll ts) w =
     (Inr (DeleteAllData True),
      w\<lparr>held := filter (\<lambda>c. fst c \<notin> set (map ti_id ts)) (held w)\<rparr>)"

definition test_sql :: "string \<Rightarrow> test_world \<Rightarrow> (error + unit) \<times> test_world" where
  "test_sql q w = (Inr (), w)"

definition test_profile :: Profile where
  "test_profile =
     \<lparr>p_id = ''u0'', p_name = ''Test User'', p_email = ''test@example.com'', p_role = admin\<rparr>"

definition test_env :: "test_world env" where
  "test_env =
     \<lparr>c_guid = (\<lambda>w. (''guid'' @ string_of_nat (tick w), next_tick w)),
      c_word = (\<lambda>n w. (take n ''qwertyuiopasdfgh'', next_tick w)),
      c_email = (\<lambda>w. (''m'' @ string_of_nat (tick w) @ ''@example.com'', next_tick w)),
      c_integer = (\<lambda>lo hi w. (lo + int (tick w) mod (hi - lo + 1), next_tick w)),
      c_pickone = (\<lambda>xs w. (if even (tick w) then hd xs else last xs, next_tick w)),
      sql = test_sql,
      graphql2 = test_graphql2,
      fixture = (\<lambda>name. if name = ''profile'' then Inr test_profile
                         else Inl (FixtureError name))\<rparr>"

definition test_state :: "test_world state" where
  "test_state = \<lparr>world = \<lparr>tick = 7, held = []\<rparr>, trace = []\<rparr>"

text \<open>The same environment with a database that rejects every statement.\<close>

definition rejecting_env :: "test_world env" where
  "rejecting_env = test_env\<lparr>sql := (\<lambda>q w. (Inl (RemoteError ''insert rejected''), w))\<rparr>"

text \<open>The same environment with an active test subject whose identifier is empty.\<close>

definition blank_subject_env :: "test_world env" where
  "blank_subject_env = test_env\<lparr>fixture := (\<lambda>name. Inr (test_profile\<lparr>p_id := []\<rparr>))\<rparr>"




section \<open>Notions used by the statements\<close>

text \<open>A decimal digit.\<close>

definition is_digit :: "char \<Rightarrow> bool" where
  "is_digit c = (c \<in> set ''0123456789'')"

text \<open>
  The shape of an email address: a non-empty local part, one \<open>@\<close>, a domain with a
  dot, and no space.
\<close>

definition email_shaped :: "string \<Rightarrow> bool" where
  "email_shaped e =
     (let local = takeWhile (\<lambda>c. c \<noteq> CHR ''@'') e;
          rest = dropWhile (\<lambda>c. c \<noteq> CHR ''@'') e
      in local \<noteq> [] \<and> rest \<noteq> [] \<and> CHR ''@'' \<notin> set (tl rest) \<and>
         CHR ''.'' \<in> set (tl rest) \<and> CHR '' '' \<notin> set e)"

text \<open>
  The \<open>userID\<close> a provisioner works with: the supplied one when it is truthy, the
  identifier of the active test subject (the \<open>profile\<close> fixture) otherwise.
\<close>

definition userID_resolves_to :: "'w env \<Rightarrow> string option \<Rightarrow> string \<Rightarrow> bool" where
  "userID_resolves_to env supplied u =
     (if truthy_string supplied then supplied = Some u
      else (case fixture env ''profile'' of Inr prof \<Rightarrow> p_id prof = u | Inl _ \<Rightarrow> False))"


text \<open>The state after \<open>cy.graphql2\<close> has issued a request.\<close>

definition after_graphql2 :: "'w env \<Rightarrow> gql_request \<Rightarrow> 'w state \<Rightarrow> 'w state" where
  "after_graphql2 env req s =
     \<lparr>world = snd (graphql2 env req (world s)), trace = trace s @ [Graphql2 req]\<rparr>"

section \<open>Basic facts\<close>

declare string_of_nat.simps [simp del]

declare addContactMethod.simps(2) [simp del] addNotificationRule.simps(2) [simp del]

lemma trace_draw [simp]: "trace (snd (draw g s)) = trace s"
  by (simp add: draw_def split: prod.splits)

lemma world_draw: "world (snd (draw g s)) = snd (g (world s))"
  by (simp add: draw_def split: prod.splits)

lemma fst_draw: "fst (draw g s) = fst (g (world s))"
  by (simp add: draw_def split: prod.splits)

lemma trace_or_string:
  assumes "\<And>t. trace (snd (b t)) = trace t"
  shows "trace (snd (or_string a b s)) = trace s"
  using assms by (simp add: or_string_def)

lemma trace_or_value:
  assumes "\<And>t. trace (snd (b t)) = trace t"
  shows "trace (snd (or_value a b s)) = trace s"
  using assms by (simp add: or_value_def split: option.splits)

lemma trace_or_number:
  assumes "\<And>t. trace (snd (b t)) = trace t"
  shows "trace (snd (or_number a b s)) = trace s"
  using assms by (simp add: or_number_def)

lemma trace_new_profile [simp]: "trace (snd (new_profile env u s)) = trace s"
proof -
  obtain i s1 where a: "draw (c_guid env) s = (i, s1)" by fastforce
  obtain n s2 where b: "or_string (uo_name u) (draw (c_word env 12)) s1 = (n, s2)" by fastforce
  obtain e s3 where c: "or_string (uo_email u) (draw (c_email env)) s2 = (e, s3)" by fastforce
  obtain r s4 where d: "or_value (uo_role u) (Pair user) s3 = (r, s4)" by fastforce
  have "trace s1 = trace s" using a trace_draw [of "c_guid env" s] by simp
  moreover have "trace s2 = trace s1"
    using b trace_or_string [of "draw (c_word env 12)" "uo_name u" s1] by simp
  moreover have "trace s3 = trace s2"
    using c trace_or_string [of "draw (c_email env)" "uo_email u" s2] by simp
  moreover have "trace s4 = trace s3"
    using d trace_or_value [of "Pair user" "uo_role u" s3] by simp
  ultimately show ?thesis by (simp add: new_profile_def a b c d)
qed

lemma trace_new_profiles [simp]: "trace (snd (new_profiles env us s)) = trace s"
proof (induction us arbitrary: s)
  case Nil
  show ?case by simp
next
  case (Cons u us)
  show ?case using Cons [of "snd (new_profile env u s)"] by (simp add: case_prod_beta)
qed

lemma length_new_profiles: "length (fst (new_profiles env us s)) = length us"
  by (induction us arbitrary: s) (simp_all add: case_prod_beta)

lemma nth_new_profiles:
  "i < length us \<Longrightarrow> \<exists>t. fst (new_profiles env us s) ! i = fst (new_profile env (us ! i) t)"
proof (induction us arbitrary: s i)
  case Nil
  then show ?case by simp
next
  case (Cons u us)
  obtain p s1 where a: "new_profile env u s = (p, s1)" by fastforce
  show ?case
  proof (cases i)
    case 0
    with a show ?thesis by (auto simp: case_prod_beta intro: exI [of _ s])
  next
    case (Suc j)
    with Cons.prems have "j < length us" by simp
    from Cons.IH [OF this, of s1] obtain t
      where "fst (new_profiles env us s1) ! j = fst (new_profile env (us ! j) t)" ..
    with a Suc show ?thesis by (auto simp: case_prod_beta)
  qed
qed

lemma createManyUsers_unfold:
  assumes "new_profiles env users s = (profiles, s1)"
  shows "createManyUsers env users s =
     (of_sum (map_sum id (\<lambda>_. profiles) (fst (sql env (dbQuery profiles) (world s1)))),
      \<lparr>world = snd (sql env (dbQuery profiles) (world s1)),
       trace = trace s @ [Sql (dbQuery profiles)]\<rparr>)"
proof -
  have "trace s1 = trace s" using assms trace_new_profiles [of env users s] by simp
  then show ?thesis
    using assms
    by (cases "sql env (dbQuery profiles) (world s1)"; cases "fst (sql env (dbQuery profiles) (world s1))")
      (simp_all add: createManyUsers_def cy_then_def cy_sql_def cy_wrap_def)
qed

lemma issued_append [simp]: "trace s' = trace s @ ops \<Longrightarrow> issued s s' = ops"
  by (simp add: issued_def)

lemma digit_char_is_digit: "d < 10 \<Longrightarrow> is_digit (digit_char d)"
proof -
  have "\<forall>d \<in> set [0..<10]. is_digit (digit_char d)" by code_simp
  then show "d < 10 \<Longrightarrow> is_digit (digit_char d)" by simp
qed

lemma string_of_nat_digits: "list_all is_digit (string_of_nat n)"
proof (induction n rule: string_of_nat.induct)
  case (1 n)
  show ?case
  proof (cases "n < 10")
    case True
    then show ?thesis by (simp add: string_of_nat.simps [of n] digit_char_is_digit)
  next
    case False
    with 1 show ?thesis by (simp add: string_of_nat.simps [of n] digit_char_is_digit)
  qed
qed

section \<open>User provisioning\<close>

text \<open>
  C4.  \<open>createManyUsers\<close> fails atomically: when its one batch statement fails, the
  command fails with the error of the statement, it yields no list of profiles, and the
  statement was the only remote operation it issued.
\<close>

theorem createManyUsers_failure_propagates:
  assumes "new_profiles env users s = (profiles, s1)"
    and "fst (sql env (dbQuery profiles) (world s1)) = Inl e"
  shows "fst (createManyUsers env users s) = Failed e \<and>
         (\<forall>ps. fst (createManyUsers env users s) \<noteq> Returned ps) \<and>
         issued s (snd (createManyUsers env users s)) = [Sql (dbQuery profiles)]"
  using assms by (simp add: createManyUsers_unfold)

theorem createManyUsers_failure_propagates_witness:
  "fst (createManyUsers rejecting_env [no_UserOptions, no_UserOptions] test_state) =
     Failed (RemoteError ''insert rejected'')"
  using createManyUsers_failure_propagates
    [of rejecting_env "[no_UserOptions, no_UserOptions]" test_state
      "fst (new_profiles rejecting_env [no_UserOptions, no_UserOptions] test_state)"
      "snd (new_profiles rejecting_env [no_UserOptions, no_UserOptions] test_state)"
      "RemoteError ''insert rejected''"]
  by (simp add: rejecting_env_def)

lemma new_profile_id: "p_id (fst (new_profile env u t)) = fst (c_guid env (world t))"
  by (simp add: new_profile_def case_prod_beta fst_draw)

lemma new_profile_name_kept:
  "uo_name u = Some v \<Longrightarrow> v \<noteq> [] \<Longrightarrow> p_name (fst (new_profile env u t)) = v"
  by (simp add: new_profile_def case_prod_beta or_string_def)

lemma new_profile_name_drawn:
  "\<not> truthy_string (uo_name u) \<Longrightarrow>
   p_name (fst (new_profile env u t)) = fst (c_word env 12 (snd (c_guid env (world t))))"
  by (simp add: new_profile_def case_prod_beta or_string_def fst_draw world_draw)

lemma new_profile_email_kept:
  "uo_email u = Some v \<Longrightarrow> v \<noteq> [] \<Longrightarrow> p_email (fst (new_profile env u t)) = v"
  by (simp add: new_profile_def case_prod_beta or_string_def)

lemma new_profile_email_drawn:
  "\<not> truthy_string (uo_email u) \<Longrightarrow>
   \<exists>w. p_email (fst (new_profile env u t)) = fst (c_email env w)"
  by (auto simp: new_profile_def case_prod_beta or_string_def fst_draw)

lemma new_profile_email_drawn_next:
  "truthy_string (uo_name u) \<Longrightarrow> \<not> truthy_string (uo_email u) \<Longrightarrow>
   p_email (fst (new_profile env u t)) = fst (c_email env (snd (c_guid env (world t))))"
  by (simp add: new_profile_def case_prod_beta or_string_def fst_draw world_draw)

lemma new_profile_role:
  "p_role (fst (new_profile env u t)) = (case uo_role u of Some r \<Rightarrow> r | None \<Rightarrow> user)"
  by (simp add: new_profile_def case_prod_beta or_value_def split: option.splits)

lemma createManyUsers_outcome:
  "\<exists>profiles w.
     trace (snd (createManyUsers env users s)) = trace s @ [Sql (dbQuery profiles)] \<and>
     fst (createManyUsers env users s) =
       (case fst (sql env (dbQuery profiles) w) of
          Inl e \<Rightarrow> Failed e | Inr _ \<Rightarrow> Returned profiles) \<and>
     profiles = fst (new_profiles env users s)"
proof -
  obtain profiles s1 where a: "new_profiles env users s = (profiles, s1)" by fastforce
  show ?thesis
    using createManyUsers_unfold [OF a] a
    by (intro exI [of _ profiles] exI [of _ "world s1"])
      (simp split: sum.splits)
qed

text \<open>
  C3, as amended.  For every list of user options \<open>createManyUsers\<close> issues exactly one
  remote operation, an insert statement that concatenates one value tuple per user; the
  profiles it yields (when the statement succeeds) are as many as the options and in their
  order; each has a generated identifier, keeps a supplied role and a supplied name or
  email that is not the empty string, takes a generated word or email where the name or
  email is missing or empty, and takes the role \<open>user\<close> where the role is missing.
\<close>

theorem createManyUsers_batch:
  "\<exists>profiles w.
     issued s (snd (createManyUsers env users s)) =
       [Sql (''insert into users (id, name, email, role) values'' @
             join '','' (map value_tuple profiles) @ '';'')] \<and>
     fst (createManyUsers env users s) =
       (case fst (sql env (dbQuery profiles) w) of
          Inl e \<Rightarrow> Failed e | Inr _ \<Rightarrow> Returned profiles) \<and>
     length profiles = length users \<and>
     (\<forall>i<length users.
        (\<exists>w. p_id (profiles ! i) = fst (c_guid env w)) \<and>
        (\<forall>v. uo_name (users ! i) = Some v \<and> v \<noteq> [] \<longrightarrow> p_name (profiles ! i) = v) \<and>
        (\<not> truthy_string (uo_name (users ! i)) \<longrightarrow>
           (\<exists>w. p_name (profiles ! i) = fst (c_word env 12 w))) \<and>
        (\<forall>v. uo_email (users ! i) = Some v \<and> v \<noteq> [] \<longrightarrow> p_email (profiles ! i) = v) \<and>
        (\<not> truthy_string (uo_email (users ! i)) \<longrightarrow>
           (\<exists>w. p_email (profiles ! i) = fst (c_email env w))) \<and>
        p_role (profiles ! i) = (case uo_role (users ! i) of Some r \<Rightarrow> r | None \<Rightarrow> user))"
proof -
  obtain profiles w where
    t: "trace (snd (createManyUsers env users s)) = trace s @ [Sql (dbQuery profiles)]" and
    r: "fst (createManyUsers env users s) =
       (case fst (sql env (dbQuery profiles) w) of
          Inl e \<Rightarrow> Failed e | Inr _ \<Rightarrow> Returned profiles)" and
    p: "profiles = fst (new_profiles env users s)"
    using createManyUsers_outcome [of env users s] by blast
  have len: "length profiles = length users" by (simp add: p length_new_profiles)
  have each: "\<exists>t. profiles ! i = fst (new_profile env (users ! i) t)" if "i < length users" for i
    using nth_new_profiles [OF that, of env s] by (simp add: p)
  have fields:
     "(\<exists>w. p_id (profiles ! i) = fst (c_guid env w)) \<and>
      (\<forall>v. uo_name (users ! i) = Some v \<and> v \<noteq> [] \<longrightarrow> p_name (profiles ! i) = v) \<and>
      (\<not> truthy_string (uo_name (users ! i)) \<longrightarrow>
         (\<exists>w. p_name (profiles ! i) = fst (c_word env 12 w))) \<and>
      (\<forall>v. uo_email (users ! i) = Some v \<and> v \<noteq> [] \<longrightarrow> p_email (profiles ! i) = v) \<and>
      (\<not> truthy_string (uo_email (users ! i)) \<longrightarrow>
         (\<exists>w. p_email (profiles ! i) = fst (c_email env w))) \<and>
      p_role (profiles ! i) = (case uo_role (users ! i) of Some r \<Rightarrow> r | None \<Rightarrow> user)"
    if "i < length users" for i
  proof -
    from each [OF that] obtain t where e: "profiles ! i = fst (new_profile env (users ! i) t)" ..
    show ?thesis
      unfolding e
      using new_profile_email_drawn [of "users ! i" env t]
      by (auto simp: new_profile_id new_profile_name_kept new_profile_name_drawn
          new_profile_email_kept new_profile_role simp del: truthy_string.simps)
  qed
  have i: "issued s (snd (createManyUsers env users s)) =
       [Sql (''insert into users (id, name, email, role) values'' @
             join '','' (map value_tuple profiles) @ '';'')]"
    using t by (simp add: dbQuery_def)
  from i r len fields show ?thesis by blast
qed


theorem createManyUsers_batch_witness:
  "\<exists>profiles.
     issued test_state
       (snd (createManyUsers test_env
          [\<lparr>uo_name = Some ''Alice'', uo_email = None, uo_role = Some admin\<rparr>, no_UserOptions]
          test_state)) = [Sql (dbQuery profiles)] \<and>
     length profiles = 2 \<and> p_name (profiles ! 0) = ''Alice'' \<and>
     p_role (profiles ! 0) = admin \<and> p_role (profiles ! 1) = user"
  using createManyUsers_batch [of test_state test_env
     "[\<lparr>uo_name = Some ''Alice'', uo_email = None, uo_role = Some admin\<rparr>, no_UserOptions]"]
  apply (elim exE conjE)
  apply (rule_tac x = profiles in exI)
  apply (frule_tac x = 0 in spec)
  apply (drule_tac x = 1 in spec)
  apply (simp add: dbQuery_def no_UserOptions_def)
  done

text \<open>
  C3 as stated fails for a supplied name that is the empty string: \<open>||\<close> replaces it
  with a generated word.
\<close>

theorem createManyUsers_empty_name_counterexample:
  "fst (createManyUsers test_env [\<lparr>uo_name = Some [], uo_email = None, uo_role = None\<rparr>]
          test_state) =
     Returned [\<lparr>p_id = ''guid7'', p_name = ''qwertyuiopas'', p_email = ''m9@example.com'',
                p_role = user\<rparr>]"
  by code_simp

lemma createUser_unfold:
  "createUser env u s =
     (case createManyUsers env [case u of None \<Rightarrow> no_UserOptions | Some v \<Rightarrow> v] s of
        (Returned ps, s') \<Rightarrow> (Returned (first_elem ps), s')
      | (Failed e, s') \<Rightarrow> (Failed e, s')
      | (Diverged, s') \<Rightarrow> (Diverged, s'))"
  by (simp add: createUser_def cy_then_def cy_wrap_def split: prod.splits outcome.splits)

lemma createUser_outcome:
  "\<exists>p w.
     issued s (snd (createUser env u s)) = [Sql (dbQuery [p])] \<and>
     fst (createUser env u s) =
       (case fst (sql env (dbQuery [p]) w) of
          Inl e \<Rightarrow> Failed e | Inr _ \<Rightarrow> Returned (Some p)) \<and>
     p_id p = fst (c_guid env (world s)) \<and>
     (let opts = (case u of None \<Rightarrow> no_UserOptions | Some v \<Rightarrow> v) in
        (\<forall>v. uo_name opts = Some v \<and> v \<noteq> [] \<longrightarrow> p_name p = v) \<and>
        (\<not> truthy_string (uo_name opts) \<longrightarrow>
           p_name p = fst (c_word env 12 (snd (c_guid env (world s))))) \<and>
        (\<forall>v. uo_email opts = Some v \<and> v \<noteq> [] \<longrightarrow> p_email p = v) \<and>
        (\<not> truthy_string (uo_email opts) \<longrightarrow> (\<exists>w. p_email p = fst (c_email env w))) \<and>
        p_role p = (case uo_role opts of Some r \<Rightarrow> r | None \<Rightarrow> user)) \<and>
     (u = Some \<lparr>uo_name = Some ''Alice'', uo_email = None, uo_role = None\<rparr> \<longrightarrow>
        p_name p = ''Alice'' \<and> p_role p = user \<and>
        p_email p = fst (c_email env (snd (c_guid env (world s)))) \<and>
        w = snd (c_email env (snd (c_guid env (world s)))))"
proof -
  define opts where "opts = (case u of None \<Rightarrow> no_UserOptions | Some v \<Rightarrow> v)"
  define p where "p = fst (new_profile env opts s)"
  define s1 where "s1 = snd (new_profile env opts s)"
  have np: "new_profiles env [opts] s = ([p], s1)"
    by (simp add: p_def s1_def case_prod_beta)
  have cm: "createManyUsers env [opts] s =
     (of_sum (map_sum id (\<lambda>_. [p]) (fst (sql env (dbQuery [p]) (world s1)))),
      \<lparr>world = snd (sql env (dbQuery [p]) (world s1)),
       trace = trace s @ [Sql (dbQuery [p])]\<rparr>)"
    by (rule createManyUsers_unfold [OF np])
  have cu: "createUser env u s =
     (case fst (sql env (dbQuery [p]) (world s1)) of
        Inl e \<Rightarrow> Failed e | Inr _ \<Rightarrow> Returned (Some p),
      \<lparr>world = snd (sql env (dbQuery [p]) (world s1)),
       trace = trace s @ [Sql (dbQuery [p])]\<rparr>)"
    unfolding createUser_unfold opts_def [symmetric] cm
    by (cases "fst (sql env (dbQuery [p]) (world s1))") (simp_all add: first_elem_def)
  have 1: "issued s (snd (createUser env u s)) = [Sql (dbQuery [p])]"
    by (simp add: cu)
  have 2: "fst (createUser env u s) =
       (case fst (sql env (dbQuery [p]) (world s1)) of
          Inl e \<Rightarrow> Failed e | Inr _ \<Rightarrow> Returned (Some p))"
    by (simp add: cu)
  have 3: "p_id p = fst (c_guid env (world s))"
    by (simp add: p_def new_profile_id)
  have 4: "\<forall>v. uo_name opts = Some v \<and> v \<noteq> [] \<longrightarrow> p_name p = v"
    by (simp add: p_def new_profile_name_kept)
  have 5: "\<not> truthy_string (uo_name opts) \<longrightarrow>
           p_name p = fst (c_word env 12 (snd (c_guid env (world s))))"
    by (simp add: p_def new_profile_name_drawn)
  have 6: "\<forall>v. uo_email opts = Some v \<and> v \<noteq> [] \<longrightarrow> p_email p = v"
    by (simp add: p_def new_profile_email_kept)
  have 7: "\<not> truthy_string (uo_email opts) \<longrightarrow> (\<exists>w. p_email p = fst (c_email env w))"
    using new_profile_email_drawn [of opts env s] by (simp add: p_def)
  have 8: "p_role p = (case uo_role opts of Some r \<Rightarrow> r | None \<Rightarrow> user)"
    by (simp add: p_def new_profile_role)
  have 9: "p_name p = ''Alice'' \<and> p_role p = user \<and>
        p_email p = fst (c_email env (snd (c_guid env (world s))))"
    if "u = Some \<lparr>uo_name = Some ''Alice'', uo_email = None, uo_role = None\<rparr>"
  proof -
    have o: "opts = \<lparr>uo_name = Some ''Alice'', uo_email = None, uo_role = None\<rparr>"
      by (simp add: opts_def that)
    have e: "p_email p = fst (c_email env (snd (c_guid env (world s))))"
      by (simp add: p_def o new_profile_email_drawn_next)
    show ?thesis using 4 8 e by (simp add: o)
  qed
  have 10: "world s1 = snd (c_email env (snd (c_guid env (world s))))"
    if "u = Some \<lparr>uo_name = Some ''Alice'', uo_email = None, uo_role = None\<rparr>"
  proof -
    have o: "opts = \<lparr>uo_name = Some ''Alice'', uo_email = None, uo_role = None\<rparr>"
      by (simp add: opts_def that)
    show ?thesis
      by (simp add: s1_def o new_profile_def case_prod_beta or_string_def or_value_def
          world_draw draw_def)
  qed
  show ?thesis
    unfolding Let_def opts_def [symmetric]
    using 1 2 3 4 5 6 7 8 9 10
    by (intro exI [of _ p] exI [of _ "world s1"]) blast
qed

lemma dbQuery_single:
  "dbQuery [p] =
     ''insert into users (id, name, email, role) values('' @
     [CHR 0x27] @ p_id p @ [CHR 0x27] @ '', '' @ [CHR 0x27] @ p_name p @ [CHR 0x27] @
     '', '' @ [CHR 0x27] @ p_email p @ [CHR 0x27] @ '', '' @
     [CHR 0x27] @ (case p_role p of user \<Rightarrow> ''user'' | admin \<Rightarrow> ''admin'') @ [CHR 0x27] @
     '');''"
  by (simp add: dbQuery_def value_tuple_def string_of_role_def)

lemma not_digits: "\<not> is_digit CHR ''@''" "\<not> is_digit CHR '' ''"
  by (simp_all add: is_digit_def)

lemma digits_not_special:
  assumes "c \<in> set (string_of_nat n)"
  shows "c \<noteq> CHR ''@'' \<and> c \<noteq> CHR '' ''"
proof -
  have "is_digit c" using string_of_nat_digits [of n] assms by (simp add: list_all_iff)
  then show ?thesis using not_digits by blast
qed

lemma test_email_shaped: "email_shaped (fst (c_email test_env w))"
proof -
  define l where "l = ''m'' @ string_of_nat (tick w)"
  have e: "fst (c_email test_env w) = l @ ''@example.com''"
    by (simp add: test_env_def l_def)
  have a: "x \<noteq> CHR ''@'' \<and> x \<noteq> CHR '' ''" if "x \<in> set l" for x
  proof (cases "x \<in> set (string_of_nat (tick w))")
    case True
    then show ?thesis by (rule digits_not_special)
  next
    case False
    with that have "x = CHR ''m''" by (simp add: l_def)
    then show ?thesis by simp
  qed
  have n: "l \<noteq> []" by (simp add: l_def)
  have "takeWhile (\<lambda>c. c \<noteq> CHR ''@'') (l @ ''@example.com'') =
      l @ takeWhile (\<lambda>c. c \<noteq> CHR ''@'') ''@example.com''"
    using a by (intro takeWhile_append2) simp
  then have t: "takeWhile (\<lambda>c. c \<noteq> CHR ''@'') (l @ ''@example.com'') = l" by simp
  have "dropWhile (\<lambda>c. c \<noteq> CHR ''@'') (l @ ''@example.com'') =
      dropWhile (\<lambda>c. c \<noteq> CHR ''@'') ''@example.com''"
    using a by (intro dropWhile_append2) simp
  then have d: "dropWhile (\<lambda>c. c \<noteq> CHR ''@'') (l @ ''@example.com'') = ''@example.com''"
    by simp
  have s: "CHR '' '' \<notin> set l" using a [of "CHR '' ''"] by blast
  show ?thesis
    unfolding e email_shaped_def Let_def t d using n s by simp
qed

text \<open>
  C8.  \<open>createUser\<close> issues one remote operation, the statement
  \<open>insert into users (id, name, email, role) values('ID', 'NAME', 'EMAIL', 'ROLE');\<close>
  with the fields of the one profile it yields when the statement succeeds.  The profile
  has the identifier generated at this call, keeps a supplied non-empty name or email
  and a supplied role, takes a generated word or email where the name or email is
  missing and the role \<open>user\<close> where the role is missing.  For \<open>{name: "Alice"}\<close> the
  name is \<open>Alice\<close>, the role is \<open>user\<close> and the email is the one drawn from the generator
  right after the identifier, which has the shape of an email address when the
  generator's emails have it.
\<close>

theorem createUser_fills_defaults:
  "\<exists>p w q.
     q = ''insert into users (id, name, email, role) values('' @
         [CHR 0x27] @ p_id p @ [CHR 0x27] @ '', '' @ [CHR 0x27] @ p_name p @ [CHR 0x27] @
         '', '' @ [CHR 0x27] @ p_email p @ [CHR 0x27] @ '', '' @
         [CHR 0x27] @ (case p_role p of user \<Rightarrow> ''user'' | admin \<Rightarrow> ''admin'') @ [CHR 0x27] @
         '');'' \<and>
     issued s (snd (createUser env u s)) = [Sql q] \<and>
     fst (createUser env u s) =
       (case fst (sql env q w) of Inl e \<Rightarrow> Failed e | Inr _ \<Rightarrow> Returned (Some p)) \<and>
     p_id p = fst (c_guid env (world s)) \<and>
     (let opts = (case u of None \<Rightarrow> no_UserOptions | Some v \<Rightarrow> v) in
        (\<forall>v. uo_name opts = Some v \<and> v \<noteq> [] \<longrightarrow> p_name p = v) \<and>
        (\<not> truthy_string (uo_name opts) \<longrightarrow>
           p_name p = fst (c_word env 12 (snd (c_guid env (world s))))) \<and>
        (\<forall>v. uo_email opts = Some v \<and> v \<noteq> [] \<longrightarrow> p_email p = v) \<and>
        (\<not> truthy_string (uo_email opts) \<longrightarrow> (\<exists>w. p_email p = fst (c_email env w))) \<and>
        p_role p = (case uo_role opts of Some r \<Rightarrow> r | None \<Rightarrow> user)) \<and>
     (u = Some \<lparr>uo_name = Some ''Alice'', uo_email = None, uo_role = None\<rparr> \<longrightarrow>
        p_name p = ''Alice'' \<and> p_role p = user \<and>
        p_email p = fst (c_email env (snd (c_guid env (world s)))) \<and>
        w = snd (c_email env (snd (c_guid env (world s)))) \<and>
        ((\<forall>w. email_shaped (fst (c_email env w))) \<longrightarrow> email_shaped (p_email p)))"
proof -
  from createUser_outcome [of s env u] obtain p w where
    h: "issued s (snd (createUser env u s)) = [Sql (dbQuery [p])] \<and>
     fst (createUser env u s) =
       (case fst (sql env (dbQuery [p]) w) of
          Inl e \<Rightarrow> Failed e | Inr _ \<Rightarrow> Returned (Some p)) \<and>
     p_id p = fst (c_guid env (world s)) \<and>
     (let opts = (case u of None \<Rightarrow> no_UserOptions | Some v \<Rightarrow> v) in
        (\<forall>v. uo_name opts = Some v \<and> v \<noteq> [] \<longrightarrow> p_name p = v) \<and>
        (\<not> truthy_string (uo_name opts) \<longrightarrow>
           p_name p = fst (c_word env 12 (snd (c_guid env (world s))))) \<and>
        (\<forall>v. uo_email opts = Some v \<and> v \<noteq> [] \<longrightarrow> p_email p = v) \<and>
        (\<not> truthy_string (uo_email opts) \<longrightarrow> (\<exists>w. p_email p = fst (c_email env w))) \<and>
        p_role p = (case uo_role opts of Some r \<Rightarrow> r | None \<Rightarrow> user)) \<and>
     (u = Some \<lparr>uo_name = Some ''Alice'', uo_email = None, uo_role = None\<rparr> \<longrightarrow>
        p_name p = ''Alice'' \<and> p_role p = user \<and>
        p_email p = fst (c_email env (snd (c_guid env (world s)))) \<and>
        w = snd (c_email env (snd (c_guid env (world s)))))"
    by blast
  have e: "u = Some \<lparr>uo_name = Some ''Alice'', uo_email = None, uo_role = None\<rparr> \<longrightarrow>
      (\<forall>w. email_shaped (fst (c_email env w))) \<longrightarrow> email_shaped (p_email p)"
    using h by simp
  show ?thesis
    apply (rule exI [of _ p])
    apply (rule exI [of _ w])
    apply (rule exI [of _ "dbQuery [p]"])
    apply (rule conjI)
     apply (rule dbQuery_single)
    using h e apply simp
    done
qed

theorem createUser_fills_defaults_witness:
  "issued test_state
     (snd (createUser test_env
        (Some \<lparr>uo_name = Some ''Alice'', uo_email = None, uo_role = None\<rparr>) test_state)) =
     [Sql (''insert into users (id, name, email, role) values('' @
           [CHR 0x27] @ ''guid7'' @ [CHR 0x27] @ '', '' @ [CHR 0x27] @ ''Alice'' @ [CHR 0x27] @
           '', '' @ [CHR 0x27] @ ''m8@example.com'' @ [CHR 0x27] @ '', '' @
           [CHR 0x27] @ ''user'' @ [CHR 0x27] @ '');'')] \<and>
   fst (createUser test_env
        (Some \<lparr>uo_name = Some ''Alice'', uo_email = None, uo_role = None\<rparr>) test_state) =
     Returned (Some \<lparr>p_id = ''guid7'', p_name = ''Alice'', p_email = ''m8@example.com'',
                      p_role = user\<rparr>) \<and>
   email_shaped ''m8@example.com''"
proof -
  have g: "c_guid test_env (world test_state) = (''guid7'', \<lparr>tick = 8, held = []\<rparr>)"
    by code_simp
  have m: "fst (c_email test_env \<lparr>tick = 8, held = []\<rparr>) = ''m8@example.com''"
    by code_simp
  have q: "fst (sql test_env x w) = Inr ()" for x w
    by (simp add: test_env_def test_sql_def)
  have v: "\<forall>w. email_shaped (fst (c_email test_env w))"
    by (simp add: test_email_shaped)
  from createUser_fills_defaults [of test_state test_env
      "Some \<lparr>uo_name = Some ''Alice'', uo_email = None, uo_role = None\<rparr>"]
  obtain p w where
    i: "issued test_state (snd (createUser test_env
          (Some \<lparr>uo_name = Some ''Alice'', uo_email = None, uo_role = None\<rparr>) test_state)) =
        [Sql (''insert into users (id, name, email, role) values('' @
         [CHR 0x27] @ p_id p @ [CHR 0x27] @ '', '' @ [CHR 0x27] @ p_name p @ [CHR 0x27] @
         '', '' @ [CHR 0x27] @ p_email p @ [CHR 0x27] @ '', '' @
         [CHR 0x27] @ (case p_role p of user \<Rightarrow> ''user'' | admin \<Rightarrow> ''admin'') @ [CHR 0x27] @
         '');'')]" and
    r: "fst (createUser test_env
          (Some \<lparr>uo_name = Some ''Alice'', uo_email = None, uo_role = None\<rparr>) test_state) =
        Returned (Some p)" and
    f: "p_id p = ''guid7''" "p_name p = ''Alice''" "p_role p = user"
       "p_email p = ''m8@example.com''" and
    s: "email_shaped (p_email p)"
    using v by (auto simp: g m q)
  have p: "p = \<lparr>p_id = ''guid7'', p_name = ''Alice'', p_email = ''m8@example.com'',
                      p_role = user\<rparr>"
    using f by (cases p) simp
  show ?thesis using i r s unfolding p by simp
qed

section \<open>Contact method provisioning\<close>

lemma digit_char_values:
  "digit_char 0 = CHR ''0''" "digit_char 1 = CHR ''1''" "digit_char 2 = CHR ''2''"
  "digit_char 3 = CHR ''3''" "digit_char 4 = CHR ''4''" "digit_char 5 = CHR ''5''"
  "digit_char 6 = CHR ''6''" "digit_char 7 = CHR ''7''" "digit_char 8 = CHR ''8''"
  "digit_char 9 = CHR ''9''" "digit_char (Suc 0) = CHR ''1''"
  by code_simp+

text \<open>The equations that run a provisioner in the concrete environment.\<close>

lemmas run_defs =
  Let_def draw_def or_string_def or_value_def or_number_def cy_then_def cy_graphql2_def
  cy_sql_def cy_wrap_def cy_throw_def cy_fixture_def test_env_def test_state_def
  next_tick_def stamp_contactMethod_def stamp_notificationRule_def spread_contactMethod_def
  string_of_nat.simps string_of_int_def digit_char_values no_ContactMethodOptions_def
  no_NotificationRuleOptions_def test_profile_def issued_def
  addContactMethod.simps addNotificationRule.simps

lemma cy_then_graphql2:
  "cy_then (cy_graphql2 env req) f s =
     (case fst (graphql2 env req (world s)) of
        Inl e \<Rightarrow> (Failed e, after_graphql2 env req s)
      | Inr x \<Rightarrow> f x (after_graphql2 env req s))"
  by (cases "graphql2 env req (world s)"; cases "fst (graphql2 env req (world s))")
    (simp_all add: cy_then_def cy_graphql2_def after_graphql2_def)

lemma cy_then_fixture:
  "cy_then (cy_fixture env name) f s =
     (case fixture env name of Inl e \<Rightarrow> (Failed e, s) | Inr prof \<Rightarrow> f prof s)"
  by (cases "fixture env name") (simp_all add: cy_then_def cy_fixture_def)

lemma string_of_nat_length:
  "10 ^ d \<le> n \<Longrightarrow> n < 10 ^ Suc d \<Longrightarrow> length (string_of_nat n) = Suc d"
proof (induction d arbitrary: n)
  case 0
  then show ?case by (simp add: string_of_nat.simps [of n])
next
  case (Suc d)
  have "10 ^ d \<le> n div 10" using Suc.prems(1) by simp
  moreover have "n div 10 < 10 ^ Suc d" using Suc.prems(2) by (simp add: less_mult_imp_div_less)
  ultimately have "length (string_of_nat (n div 10)) = Suc d" by (rule Suc.IH)
  moreover have "(10::nat) \<le> 10 ^ Suc d" by simp
  then have "\<not> n < 10" using Suc.prems(1) by linarith
  ultimately show ?case by (simp add: string_of_nat.simps [of n])
qed

lemma suffix_seven_digits:
  assumes "3000000 \<le> k" and "k \<le> 3999999"
  shows "length (string_of_int k) = 7 \<and> list_all is_digit (string_of_int k)"
proof -
  have "10 ^ 6 \<le> nat k" and "nat k < 10 ^ Suc 6" using assms by simp_all
  then have "length (string_of_nat (nat k)) = Suc 6" by (rule string_of_nat_length)
  then show ?thesis using assms by (simp add: string_of_int_def string_of_nat_digits)
qed


text \<open>The variables \<open>addContactMethod\<close> sends once a \<open>userID\<close> is present.\<close>

lemma addContactMethod_direct:
  assumes "truthy_string (cmo_userID cm)"
  shows "\<exists>inp w.
     addContactMethod (Suc n) env (Some cm) s =
       (case fst (graphql2 env (CreateUserContactMethod inp) w) of
          Inl e \<Rightarrow> Failed e
        | Inr (CreateUserContactMethodData r) \<Rightarrow>
            Returned (stamp_contactMethod (the (cmo_userID cm)) r)
        | Inr _ \<Rightarrow> Failed TypeError,
        \<lparr>world = snd (graphql2 env (CreateUserContactMethod inp) w),
         trace = trace s @ [Graphql2 (CreateUserContactMethod inp)]\<rparr>) \<and>
     cmi_userID inp = the (cmo_userID cm) \<and>
     cmi_value inp =
       (if truthy_string (cmo_value cm) then the (cmo_value cm)
        else ''+1763'' @ string_of_int (fst (c_integer env 3000000 3999999 (world s))))"
proof -
  define s1 where "s1 = snd (draw (c_integer env 3000000 3999999) s)"
  define k where "k = fst (draw (c_integer env 3000000 3999999) s)"
  define gen where "gen = (\<lambda>t::'a state. case draw (c_word env 8) t of (w, t') \<Rightarrow> (''SM CM '' @ w, t'))"
  define s2 where "s2 = snd (or_string (cmo_name cm) gen s1)"
  define name where "name = fst (or_string (cmo_name cm) gen s1)"
  define s3 where "s3 = snd (or_value (cmo_type cm) (draw (c_pickone env [SMS, VOICE])) s2)"
  define type where "type = fst (or_value (cmo_type cm) (draw (c_pickone env [SMS, VOICE])) s2)"
  define s4 where "s4 = snd (or_string (cmo_value cm) (Pair (''+1763'' @ string_of_int k)) s3)"
  define val where "val = fst (or_string (cmo_value cm) (Pair (''+1763'' @ string_of_int k)) s3)"
  define inp where "inp = \<lparr>cmi_userID = the (cmo_userID cm), cmi_name = name, cmi_type = type,
                cmi_value = val\<rparr>"
  have t1: "trace s1 = trace s" by (simp add: s1_def)
  have "trace (snd (gen t)) = trace t" for t
    using trace_draw [of "c_word env 8" t] by (simp add: gen_def case_prod_beta)
  then have t2: "trace s2 = trace s1" unfolding s2_def by (rule trace_or_string)
  have t3: "trace s3 = trace s2" unfolding s3_def by (rule trace_or_value) simp
  have t4: "trace s4 = trace s3" unfolding s4_def by (rule trace_or_string) simp
  have tr: "trace s4 = trace s" using t1 t2 t3 t4 by simp
  have v: "val = (if truthy_string (cmo_value cm) then the (cmo_value cm)
        else ''+1763'' @ string_of_int (fst (c_integer env 3000000 3999999 (world s))))"
    by (simp add: val_def or_string_def k_def fst_draw)
  have run: "addContactMethod (Suc n) env (Some cm) s =
      cy_then (cy_graphql2 env (CreateUserContactMethod inp))
            (\<lambda>res. case res of
               CreateUserContactMethodData r \<Rightarrow>
                 cy_wrap (stamp_contactMethod (the (cmo_userID cm)) r)
             | _ \<Rightarrow> cy_throw TypeError) s4"
    using assms
    by (simp add: addContactMethod.simps case_prod_beta Let_def inp_def val_def s4_def type_def
        s3_def name_def s2_def gen_def k_def s1_def)
  have "addContactMethod (Suc n) env (Some cm) s =
       (case fst (graphql2 env (CreateUserContactMethod inp) (world s4)) of
          Inl e \<Rightarrow> Failed e
        | Inr (CreateUserContactMethodData r) \<Rightarrow>
            Returned (stamp_contactMethod (the (cmo_userID cm)) r)
        | Inr _ \<Rightarrow> Failed TypeError,
        \<lparr>world = snd (graphql2 env (CreateUserContactMethod inp) (world s4)),
         trace = trace s @ [Graphql2 (CreateUserContactMethod inp)]\<rparr>)"
    unfolding run cy_then_graphql2
    by (simp add: after_graphql2_def tr cy_wrap_def cy_throw_def
        split: sum.splits gql_response.splits)
  moreover have "cmi_userID inp = the (cmo_userID cm)" by (simp add: inp_def)
  moreover have "cmi_value inp =
       (if truthy_string (cmo_value cm) then the (cmo_value cm)
        else ''+1763'' @ string_of_int (fst (c_integer env 3000000 3999999 (world s))))"
    using v by (simp add: inp_def)
  ultimately show ?thesis by blast
qed

lemma addContactMethod_resolve:
  assumes "\<not> truthy_string (cmo_userID (case cmo of None \<Rightarrow> no_ContactMethodOptions | Some v \<Rightarrow> v))"
  shows "addContactMethod (Suc n) env cmo s =
     (case fixture env ''profile'' of
        Inl e \<Rightarrow> (Failed e, s)
      | Inr prof \<Rightarrow>
          addContactMethod n env
            (Some ((case cmo of None \<Rightarrow> no_ContactMethodOptions | Some v \<Rightarrow> v)
               \<lparr>cmo_userID := Some (p_id prof)\<rparr>)) s)"
  using assms by (simp add: addContactMethod.simps Let_def cy_then_fixture)


lemma resolves_after_fixture:
  assumes "\<not> truthy_string supplied" and "fixture env ''profile'' = Inr prof"
    and "userID_resolves_to env (Some (p_id prof)) u"
  shows "userID_resolves_to env supplied u"
  using assms by (auto simp: userID_resolves_to_def split: if_splits)

lemma resolves_supplied:
  "truthy_string supplied \<Longrightarrow> userID_resolves_to env supplied (the supplied)"
  by (cases supplied) (simp_all add: userID_resolves_to_def)

lemma addContactMethod_issued:
  "\<exists>ops. trace (snd (addContactMethod n env cmo s)) = trace s @ ops \<and>
     (ops = [] \<or>
      (\<exists>inp. ops = [Graphql2 (CreateUserContactMethod inp)] \<and>
         userID_resolves_to env
           (cmo_userID (case cmo of None \<Rightarrow> no_ContactMethodOptions | Some v \<Rightarrow> v))
           (cmi_userID inp) \<and>
         (\<not> truthy_string
              (cmo_value (case cmo of None \<Rightarrow> no_ContactMethodOptions | Some v \<Rightarrow> v)) \<longrightarrow>
            (\<exists>w. cmi_value inp =
               ''+1763'' @ string_of_int (fst (c_integer env 3000000 3999999 w)))))) \<and>
     (\<forall>c. fst (addContactMethod n env cmo s) = Returned c \<longrightarrow> ops \<noteq> [])"
proof (induction n arbitrary: cmo s)
  case 0
  show ?case by simp
next
  case (Suc n)
  define cm where "cm = (case cmo of None \<Rightarrow> no_ContactMethodOptions | Some v \<Rightarrow> v)"
  show ?case
  proof (cases "truthy_string (cmo_userID cm)")
    case True
    then have c: "cmo = Some cm"
      by (cases cmo) (simp_all add: cm_def no_ContactMethodOptions_def)
    from addContactMethod_direct [OF True, of n env s] obtain inp w where
      r: "addContactMethod (Suc n) env (Some cm) s =
       (case fst (graphql2 env (CreateUserContactMethod inp) w) of
          Inl e \<Rightarrow> Failed e
        | Inr (CreateUserContactMethodData r) \<Rightarrow>
            Returned (stamp_contactMethod (the (cmo_userID cm)) r)
        | Inr _ \<Rightarrow> Failed TypeError,
        \<lparr>world = snd (graphql2 env (CreateUserContactMethod inp) w),
         trace = trace s @ [Graphql2 (CreateUserContactMethod inp)]\<rparr>)" and
      u: "cmi_userID inp = the (cmo_userID cm)" and
      v: "cmi_value inp =
       (if truthy_string (cmo_value cm) then the (cmo_value cm)
        else ''+1763'' @ string_of_int (fst (c_integer env 3000000 3999999 (world s))))"
      by blast
    have "userID_resolves_to env (cmo_userID cm) (cmi_userID inp)"
      using resolves_supplied [OF True, of env] u by simp
    moreover have "\<not> truthy_string (cmo_value cm) \<longrightarrow>
            (\<exists>w. cmi_value inp =
               ''+1763'' @ string_of_int (fst (c_integer env 3000000 3999999 w)))"
      using v by auto
    ultimately show ?thesis
      unfolding cm_def [symmetric] unfolding c r
      by (intro exI [of _ "[Graphql2 (CreateUserContactMethod inp)]"]) simp
  next
    case False
    note res = addContactMethod_resolve [of cmo n env s, folded cm_def, OF False]
    show ?thesis
    proof (cases "fixture env ''profile''")
      case (Inl e)
      then show ?thesis using res by simp
    next
      case (Inr prof)
      let ?cmo = "Some (cm\<lparr>cmo_userID := Some (p_id prof)\<rparr>)"
      from Suc [of ?cmo s] obtain ops where
        t: "trace (snd (addContactMethod n env ?cmo s)) = trace s @ ops" and
        o: "ops = [] \<or>
          (\<exists>inp. ops = [Graphql2 (CreateUserContactMethod inp)] \<and>
             userID_resolves_to env (Some (p_id prof)) (cmi_userID inp) \<and>
             (\<not> truthy_string (cmo_value cm) \<longrightarrow>
                (\<exists>w. cmi_value inp =
                   ''+1763'' @ string_of_int (fst (c_integer env 3000000 3999999 w)))))" and
        n: "\<forall>c. fst (addContactMethod n env ?cmo s) = Returned c \<longrightarrow> ops \<noteq> []"
        by auto
      have e: "addContactMethod (Suc n) env cmo s = addContactMethod n env ?cmo s"
        using res Inr by simp
      have "ops = [] \<or>
          (\<exists>inp. ops = [Graphql2 (CreateUserContactMethod inp)] \<and>
             userID_resolves_to env (cmo_userID cm) (cmi_userID inp) \<and>
             (\<not> truthy_string (cmo_value cm) \<longrightarrow>
                (\<exists>w. cmi_value inp =
                   ''+1763'' @ string_of_int (fst (c_integer env 3000000 3999999 w)))))"
        using o resolves_after_fixture [OF False Inr] by blast
      with t n show ?thesis unfolding cm_def [symmetric] e by blast
    qed
  qed
qed

text \<open>
  C9.  Whenever \<open>addContactMethod\<close> sends a value it synthesized (the supplied value is
  missing or empty), the value is \<open>+1763\<close> followed by the decimal text of the integer
  drawn from 3000000..3999999, which has exactly seven characters, all of them digits.
  The range of the draw is the contract of Chance's \<open>integer\<close>.
\<close>

theorem synthesized_phone_shape:
  assumes "\<forall>lo hi w. lo \<le> hi \<longrightarrow>
             lo \<le> fst (c_integer env lo hi w) \<and> fst (c_integer env lo hi w) \<le> hi"
    and "\<not> truthy_string
           (cmo_value (case cmo of None \<Rightarrow> no_ContactMethodOptions | Some v \<Rightarrow> v))"
    and "Graphql2 (CreateUserContactMethod inp) \<in>
           set (issued s (snd (addContactMethod n env cmo s)))"
  shows "\<exists>k. cmi_value inp = ''+1763'' @ string_of_int k \<and>
             (\<exists>w. k = fst (c_integer env 3000000 3999999 w)) \<and>
             3000000 \<le> k \<and> k \<le> 3999999 \<and>
             length (string_of_int k) = 7 \<and> list_all is_digit (string_of_int k)"
proof -
  from addContactMethod_issued [of n env cmo s] obtain ops where
    t: "trace (snd (addContactMethod n env cmo s)) = trace s @ ops" and
    o: "ops = [] \<or>
      (\<exists>i. ops = [Graphql2 (CreateUserContactMethod i)] \<and>
         (\<not> truthy_string
              (cmo_value (case cmo of None \<Rightarrow> no_ContactMethodOptions | Some v \<Rightarrow> v)) \<longrightarrow>
            (\<exists>w. cmi_value i =
               ''+1763'' @ string_of_int (fst (c_integer env 3000000 3999999 w)))))"
    by blast
  have "issued s (snd (addContactMethod n env cmo s)) = ops" using t by simp
  with assms(3) have "Graphql2 (CreateUserContactMethod inp) \<in> set ops" by simp
  with o assms(2) obtain w where
    v: "cmi_value inp = ''+1763'' @ string_of_int (fst (c_integer env 3000000 3999999 w))"
    by auto
  define k where "k = fst (c_integer env 3000000 3999999 w)"
  have "3000000 \<le> k \<and> k \<le> 3999999" using assms(1) by (simp add: k_def)
  then show ?thesis using v suffix_seven_digits [of k] unfolding k_def by blast
qed

theorem synthesized_phone_shape_witness:
  "\<exists>k. ''+17633000007'' = ''+1763'' @ string_of_int k \<and>
       (\<exists>w. k = fst (c_integer test_env 3000000 3999999 w)) \<and>
       3000000 \<le> k \<and> k \<le> 3999999 \<and>
       length (string_of_int k) = 7 \<and> list_all is_digit (string_of_int k)"
proof -
  have c: "\<forall>lo hi w. lo \<le> hi \<longrightarrow>
             lo \<le> fst (c_integer test_env lo hi w) \<and> fst (c_integer test_env lo hi w) \<le> hi"
  proof (intro allI impI)
    fix lo hi :: int and w :: test_world
    assume "lo \<le> hi"
    then have p: "0 < hi - lo + 1" by simp
    have a: "0 \<le> int (tick w) mod (hi - lo + 1)" using p by (rule pos_mod_sign)
    have b: "int (tick w) mod (hi - lo + 1) < hi - lo + 1" using p by (rule pos_mod_bound)
    have e: "fst (c_integer test_env lo hi w) = lo + int (tick w) mod (hi - lo + 1)"
      by (simp add: test_env_def)
    show "lo \<le> fst (c_integer test_env lo hi w) \<and> fst (c_integer test_env lo hi w) \<le> hi"
      unfolding e using a b by linarith
  qed
  have i: "issued test_state (snd (addContactMethod (Suc (Suc 0)) test_env None test_state)) =
     [Graphql2 (CreateUserContactMethod
        \<lparr>cmi_userID = ''u0'', cmi_name = ''SM CM qwertyui'', cmi_type = VOICE,
         cmi_value = ''+17633000007''\<rparr>)]"
    by (simp add: run_defs)
  have n: "\<not> truthy_string (cmo_value (case None of None \<Rightarrow> no_ContactMethodOptions | Some v \<Rightarrow> v))"
    by (simp add: no_ContactMethodOptions_def)
  have m: "Graphql2 (CreateUserContactMethod
        \<lparr>cmi_userID = ''u0'', cmi_name = ''SM CM qwertyui'', cmi_type = VOICE,
         cmi_value = ''+17633000007''\<rparr>) \<in>
      set (issued test_state (snd (addContactMethod (Suc (Suc 0)) test_env None test_state)))"
    unfolding i by simp
  show ?thesis
    using synthesized_phone_shape [OF c n m] by simp
qed

section \<open>Notification rule provisioning\<close>

lemma addNotificationRule_resolve:
  assumes "\<not> truthy_string
     (nro_userID (case nro of None \<Rightarrow> no_NotificationRuleOptions | Some v \<Rightarrow> v))"
  shows "addNotificationRule (Suc n) env nro s =
     (case fixture env ''profile'' of
        Inl e \<Rightarrow> (Failed e, s)
      | Inr prof \<Rightarrow>
          addNotificationRule n env
            (Some ((case nro of None \<Rightarrow> no_NotificationRuleOptions | Some v \<Rightarrow> v)
               \<lparr>nro_userID := Some (p_id prof)\<rparr>)) s)"
  using assms by (simp add: addNotificationRule.simps Let_def cy_then_fixture)

lemma addNotificationRule_create:
  assumes "truthy_string (nro_userID nr)" and "\<not> truthy_string (nro_contactMethodID nr)"
  shows "addNotificationRule (Suc n) env (Some nr) s =
     cy_then
       (addContactMethod n env
          (Some (spread_contactMethod (nro_contactMethod nr) (nro_userID nr))))
       (\<lambda>cm. addNotificationRule n env
          (Some (nr\<lparr>nro_contactMethodID := Some (cm_id cm)\<rparr>))) s"
  using assms by (simp add: addNotificationRule.simps Let_def)

lemma addNotificationRule_direct:
  assumes "truthy_string (nro_userID nr)" and "truthy_string (nro_contactMethodID nr)"
  shows "\<exists>inp w.
     addNotificationRule (Suc n) env (Some nr) s =
       (case fst (graphql2 env (CreateUserNotificationRule inp) w) of
          Inl e \<Rightarrow> Failed e
        | Inr (CreateUserNotificationRuleData r) \<Rightarrow>
            Returned (stamp_notificationRule (the (nro_userID nr)) r)
        | Inr _ \<Rightarrow> Failed TypeError,
        \<lparr>world = snd (graphql2 env (CreateUserNotificationRule inp) w),
         trace = trace s @ [Graphql2 (CreateUserNotificationRule inp)]\<rparr>) \<and>
     inp = \<lparr>nri_userID = the (nro_userID nr),
            nri_contactMethodID = the (nro_contactMethodID nr),
            nri_delayMinutes =
              (if truthy_number (nro_delayMinutes nr) then the (nro_delayMinutes nr)
               else fst (c_integer env 0 15 (world s)))\<rparr>"
proof -
  define s1 where "s1 = snd (or_number (nro_delayMinutes nr) (draw (c_integer env 0 15)) s)"
  define d where "d = fst (or_number (nro_delayMinutes nr) (draw (c_integer env 0 15)) s)"
  define inp where "inp = \<lparr>nri_userID = the (nro_userID nr),
            nri_contactMethodID = the (nro_contactMethodID nr), nri_delayMinutes = d\<rparr>"
  have tr: "trace s1 = trace s" unfolding s1_def by (rule trace_or_number) simp
  have dv: "d = (if truthy_number (nro_delayMinutes nr) then the (nro_delayMinutes nr)
               else fst (c_integer env 0 15 (world s)))"
    by (simp add: d_def or_number_def fst_draw)
  have run: "addNotificationRule (Suc n) env (Some nr) s =
      cy_then (cy_graphql2 env (CreateUserNotificationRule inp))
            (\<lambda>res. case res of
               CreateUserNotificationRuleData r \<Rightarrow>
                 cy_wrap (stamp_notificationRule (the (nro_userID nr)) r)
             | _ \<Rightarrow> cy_throw TypeError) s1"
    using assms by (simp add: addNotificationRule.simps case_prod_beta Let_def inp_def d_def s1_def)
  have "addNotificationRule (Suc n) env (Some nr) s =
       (case fst (graphql2 env (CreateUserNotificationRule inp) (world s1)) of
          Inl e \<Rightarrow> Failed e
        | Inr (CreateUserNotificationRuleData r) \<Rightarrow>
            Returned (stamp_notificationRule (the (nro_userID nr)) r)
        | Inr _ \<Rightarrow> Failed TypeError,
        \<lparr>world = snd (graphql2 env (CreateUserNotificationRule inp) (world s1)),
         trace = trace s @ [Graphql2 (CreateUserNotificationRule inp)]\<rparr>)"
    unfolding run cy_then_graphql2
    by (simp add: after_graphql2_def tr cy_wrap_def cy_throw_def
        split: sum.splits gql_response.splits)
  then show ?thesis unfolding inp_def dv by blast
qed

lemma options_of_truthy_userID:
  assumes "truthy_string
     (nro_userID (case nro of None \<Rightarrow> no_NotificationRuleOptions | Some v \<Rightarrow> v))"
  shows "nro = Some (case nro of None \<Rightarrow> no_NotificationRuleOptions | Some v \<Rightarrow> v)"
  using assms by (cases nro) (simp_all add: no_NotificationRuleOptions_def)

lemma cy_then_Returned:
  assumes "cy_then m f s = (Returned r, s')"
  obtains a s1 where "m s = (Returned a, s1)" and "f a s1 = (Returned r, s')"
  using assms by (auto simp: cy_then_def split: prod.splits outcome.splits)

lemma stamped_userIDs:
  "nr_userID (stamp_notificationRule u r) = u"
  "cm_userID (nr_contactMethod (stamp_notificationRule u r)) = u"
  by (simp_all add: stamp_notificationRule_def stamp_contactMethod_def)

lemma addNotificationRule_returned:
  assumes "addNotificationRule n env nro s = (Returned r, s')"
  shows "userID_resolves_to env
           (nro_userID (case nro of None \<Rightarrow> no_NotificationRuleOptions | Some v \<Rightarrow> v))
           (nr_userID r) \<and>
         cm_userID (nr_contactMethod r) = nr_userID r \<and>
         (\<exists>pre inp. trace s' = trace s @ pre @ [Graphql2 (CreateUserNotificationRule inp)] \<and>
            nri_userID inp = nr_userID r)"
  using assms
proof (induction n arbitrary: nro s)
  case 0
  then show ?case by simp
next
  case (Suc n)
  define nr where "nr = (case nro of None \<Rightarrow> no_NotificationRuleOptions | Some v \<Rightarrow> v)"
  show ?case
  proof (cases "truthy_string (nro_userID nr)")
    case False
    note res = addNotificationRule_resolve [of nro n env s, folded nr_def, OF False]
    show ?thesis
    proof (cases "fixture env ''profile''")
      case (Inl e)
      with res Suc.prems show ?thesis by simp
    next
      case (Inr prof)
      let ?nro = "Some (nr\<lparr>nro_userID := Some (p_id prof)\<rparr>)"
      have "addNotificationRule n env ?nro s = (Returned r, s')"
        using res Inr Suc.prems by simp
      from Suc.IH [OF this] resolves_after_fixture [OF False Inr]
      show ?thesis unfolding nr_def [symmetric] by simp
    qed
  next
    case True
    have nro: "nro = Some nr"
      using options_of_truthy_userID [of nro] True by (simp add: nr_def)
    show ?thesis
    proof (cases "truthy_string (nro_contactMethodID nr)")
      case False
      let ?cmo = "Some (spread_contactMethod (nro_contactMethod nr) (nro_userID nr))"
      from Suc.prems obtain cm s1 where
        a: "addContactMethod n env ?cmo s = (Returned cm, s1)" and
        b: "addNotificationRule n env (Some (nr\<lparr>nro_contactMethodID := Some (cm_id cm)\<rparr>)) s1 =
              (Returned r, s')"
        unfolding nro addNotificationRule_create [OF True False]
        by (rule cy_then_Returned)
      from addContactMethod_issued [of n env ?cmo s] a obtain ops where
        t: "trace s1 = trace s @ ops" by auto
      from Suc.IH [OF b] t show ?thesis unfolding nr_def [symmetric] by auto
    next
      case cmid: True
      from addNotificationRule_direct [OF True cmid, of n env s] obtain inp w where
        run: "addNotificationRule (Suc n) env (Some nr) s =
          (case fst (graphql2 env (CreateUserNotificationRule inp) w) of
             Inl e \<Rightarrow> Failed e
           | Inr (CreateUserNotificationRuleData r) \<Rightarrow>
               Returned (stamp_notificationRule (the (nro_userID nr)) r)
           | Inr _ \<Rightarrow> Failed TypeError,
           \<lparr>world = snd (graphql2 env (CreateUserNotificationRule inp) w),
            trace = trace s @ [Graphql2 (CreateUserNotificationRule inp)]\<rparr>)" and
        inp: "nri_userID inp = the (nro_userID nr)"
        by auto
      from Suc.prems obtain d where
        r: "r = stamp_notificationRule (the (nro_userID nr)) d" and
        s': "trace s' = trace s @ [Graphql2 (CreateUserNotificationRule inp)]"
        unfolding nro run by (auto split: sum.splits gql_response.splits)
      have "userID_resolves_to env (nro_userID nr) (nr_userID r)"
        using resolves_supplied [OF True, of env] by (simp add: r stamped_userIDs)
      moreover have "cm_userID (nr_contactMethod r) = nr_userID r"
        by (simp add: r stamped_userIDs)
      moreover have "\<exists>pre inp. trace s' = trace s @ pre @ [Graphql2 (CreateUserNotificationRule inp)] \<and>
            nri_userID inp = nr_userID r"
        using s' inp by (intro exI [of _ "[]"] exI [of _ inp]) (simp add: r stamped_userIDs)
      ultimately show ?thesis unfolding nr_def [symmetric] by blast
    qed
  qed
qed


text \<open>
  C1.  Every notification rule that \<open>addNotificationRule\<close> returns carries, in its own
  \<open>userID\<close> and in the \<open>userID\<close> of its embedded contact method, the \<open>userID\<close> of the
  creation mutation, the last operation issued; that \<open>userID\<close> is the supplied one when
  it is truthy and the identifier of the active test subject otherwise.
\<close>

theorem notification_rule_userIDs:
  assumes "addNotificationRule n env nro s = (Returned r, s')"
  shows "userID_resolves_to env
           (nro_userID (case nro of None \<Rightarrow> no_NotificationRuleOptions | Some v \<Rightarrow> v))
           (nr_userID r) \<and>
         cm_userID (nr_contactMethod r) = nr_userID r \<and>
         (\<exists>pre inp. issued s s' = pre @ [Graphql2 (CreateUserNotificationRule inp)] \<and>
            nri_userID inp = nr_userID r)"
proof -
  from addNotificationRule_returned [OF assms] obtain pre inp where
    "trace s' = trace s @ pre @ [Graphql2 (CreateUserNotificationRule inp)]" and
    "nri_userID inp = nr_userID r"
    by blast
  then have "issued s s' = pre @ [Graphql2 (CreateUserNotificationRule inp)] \<and>
      nri_userID inp = nr_userID r"
    by simp
  with addNotificationRule_returned [OF assms] show ?thesis by blast
qed

theorem notification_rule_userIDs_witness:
  "userID_resolves_to test_env None ''u0'' \<and>
   (\<exists>r s'. addNotificationRule (Suc (Suc (Suc 0))) test_env None test_state = (Returned r, s') \<and>
      nr_userID r = ''u0'' \<and> cm_userID (nr_contactMethod r) = ''u0'' \<and>
      (\<exists>pre inp. issued test_state s' = pre @ [Graphql2 (CreateUserNotificationRule inp)] \<and>
         nri_userID inp = ''u0''))"
proof -
  have run: "addNotificationRule (Suc (Suc (Suc 0))) test_env None test_state =
    (Returned
       \<lparr>nr_id = ''nr12'', nr_userID = ''u0'', nr_contactMethodID = ''cm10'',
        nr_contactMethod =
          \<lparr>cm_id = ''cm10'', cm_userID = ''u0'', cm_name = ''held'',
           cm_type = SMS, cm_value = ''+17633000000''\<rparr>,
        nr_delayMinutes = 11\<rparr>,
     \<lparr>world = \<lparr>tick = 13, held = [(''cm10'', ''u0'')]\<rparr>,
      trace =
        [Graphql2 (CreateUserContactMethod
           \<lparr>cmi_userID = ''u0'', cmi_name = ''SM CM qwertyui'',
            cmi_type = VOICE, cmi_value = ''+17633000007''\<rparr>),
         Graphql2 (CreateUserNotificationRule
           \<lparr>nri_userID = ''u0'', nri_contactMethodID = ''cm10'',
            nri_delayMinutes = 11\<rparr>)]\<rparr>)"
    by (simp add: run_defs)
  show ?thesis
    using notification_rule_userIDs [OF run] unfolding run
    by (simp add: no_NotificationRuleOptions_def)
qed

lemma addNotificationRule_with_contactMethodID:
  assumes "truthy_string
     (nro_contactMethodID (case nro of None \<Rightarrow> no_NotificationRuleOptions | Some v \<Rightarrow> v))"
  shows "\<exists>ops. trace (snd (addNotificationRule n env nro s)) = trace s @ ops \<and>
     (ops = [] \<or>
      (\<exists>inp. ops = [Graphql2 (CreateUserNotificationRule inp)] \<and>
         nri_contactMethodID inp =
           the (nro_contactMethodID
                  (case nro of None \<Rightarrow> no_NotificationRuleOptions | Some v \<Rightarrow> v)))) \<and>
     (\<forall>r. fst (addNotificationRule n env nro s) = Returned r \<longrightarrow> ops \<noteq> [])"
  using assms
proof (induction n arbitrary: nro s)
  case 0
  show ?case by simp
next
  case (Suc n)
  define nr where "nr = (case nro of None \<Rightarrow> no_NotificationRuleOptions | Some v \<Rightarrow> v)"
  have cmid: "truthy_string (nro_contactMethodID nr)" using Suc.prems by (simp add: nr_def)
  show ?case
  proof (cases "truthy_string (nro_userID nr)")
    case False
    note res = addNotificationRule_resolve [of nro n env s, folded nr_def, OF False]
    show ?thesis
    proof (cases "fixture env ''profile''")
      case (Inl e)
      with res show ?thesis by simp
    next
      case (Inr prof)
      let ?nro = "Some (nr\<lparr>nro_userID := Some (p_id prof)\<rparr>)"
      have e: "addNotificationRule (Suc n) env nro s = addNotificationRule n env ?nro s"
        using res Inr by simp
      from Suc.IH [of ?nro s] cmid show ?thesis
        unfolding nr_def [symmetric] e by simp
    qed
  next
    case True
    have nro: "nro = Some nr"
      using options_of_truthy_userID [of nro] True by (simp add: nr_def)
    from addNotificationRule_direct [OF True cmid, of n env s] obtain inp w where
      run: "addNotificationRule (Suc n) env (Some nr) s =
        (case fst (graphql2 env (CreateUserNotificationRule inp) w) of
           Inl e \<Rightarrow> Failed e
         | Inr (CreateUserNotificationRuleData r) \<Rightarrow>
             Returned (stamp_notificationRule (the (nro_userID nr)) r)
         | Inr _ \<Rightarrow> Failed TypeError,
         \<lparr>world = snd (graphql2 env (CreateUserNotificationRule inp) w),
          trace = trace s @ [Graphql2 (CreateUserNotificationRule inp)]\<rparr>)" and
      inp: "nri_contactMethodID inp = the (nro_contactMethodID nr)"
      by auto
    show ?thesis
      unfolding nr_def [symmetric] unfolding nro run
      using inp by (intro exI [of _ "[Graphql2 (CreateUserNotificationRule inp)]"]) simp
  qed
qed

text \<open>
  C6, as amended.  When the options supply a \<open>contactMethodID\<close> that is not the empty
  string, \<open>addNotificationRule\<close> issues no contact method creation, and a run that
  returns has issued exactly the rule creation, with the supplied \<open>contactMethodID\<close>.
\<close>

theorem supplied_contactMethodID_short_circuit:
  assumes "nro_contactMethodID nr = Some c" and "c \<noteq> []"
  shows "(\<forall>i. Graphql2 (CreateUserContactMethod i) \<notin>
             set (issued s (snd (addNotificationRule n env (Some nr) s)))) \<and>
         (\<forall>r. fst (addNotificationRule n env (Some nr) s) = Returned r \<longrightarrow>
            (\<exists>inp. issued s (snd (addNotificationRule n env (Some nr) s)) =
                     [Graphql2 (CreateUserNotificationRule inp)] \<and>
                   nri_contactMethodID inp = c))"
proof -
  have "truthy_string
     (nro_contactMethodID (case Some nr of None \<Rightarrow> no_NotificationRuleOptions | Some v \<Rightarrow> v))"
    using assms by simp
  from addNotificationRule_with_contactMethodID [OF this, of n env s] obtain ops where
    t: "trace (snd (addNotificationRule n env (Some nr) s)) = trace s @ ops" and
    o: "ops = [] \<or>
      (\<exists>inp. ops = [Graphql2 (CreateUserNotificationRule inp)] \<and> nri_contactMethodID inp = c)" and
    r: "\<forall>r. fst (addNotificationRule n env (Some nr) s) = Returned r \<longrightarrow> ops \<noteq> []"
    using assms by auto
  have i: "issued s (snd (addNotificationRule n env (Some nr) s)) = ops" using t by simp
  show ?thesis unfolding i using o r by auto
qed

theorem supplied_contactMethodID_short_circuit_witness:
  "issued test_state
     (snd (addNotificationRule (Suc 0) test_env
        (Some \<lparr>nro_userID = Some ''u1'', nro_delayMinutes = Some 5,
               nro_contactMethodID = Some ''c1'', nro_contactMethod = None\<rparr>) test_state)) =
     [Graphql2 (CreateUserNotificationRule
        \<lparr>nri_userID = ''u1'', nri_contactMethodID = ''c1'', nri_delayMinutes = 5\<rparr>)] \<and>
   (\<exists>inp. issued test_state
     (snd (addNotificationRule (Suc 0) test_env
        (Some \<lparr>nro_userID = Some ''u1'', nro_delayMinutes = Some 5,
               nro_contactMethodID = Some ''c1'', nro_contactMethod = None\<rparr>) test_state)) =
     [Graphql2 (CreateUserNotificationRule inp)] \<and> nri_contactMethodID inp = ''c1'')"
proof -
  let ?nr = "\<lparr>nro_userID = Some ''u1'', nro_delayMinutes = Some 5,
               nro_contactMethodID = Some ''c1'', nro_contactMethod = None\<rparr>"
  have run: "addNotificationRule (Suc 0) test_env (Some ?nr) test_state =
    (Returned
       \<lparr>nr_id = ''nr7'', nr_userID = ''u1'', nr_contactMethodID = ''c1'',
        nr_contactMethod =
          \<lparr>cm_id = ''c1'', cm_userID = ''u1'', cm_name = ''held'',
           cm_type = SMS, cm_value = ''+17633000000''\<rparr>,
        nr_delayMinutes = 5\<rparr>,
     \<lparr>world = \<lparr>tick = 8, held = []\<rparr>,
      trace =
        [Graphql2 (CreateUserNotificationRule
           \<lparr>nri_userID = ''u1'', nri_contactMethodID = ''c1'',
            nri_delayMinutes = 5\<rparr>)]\<rparr>)"
    by (simp add: run_defs)
  show ?thesis
    using supplied_contactMethodID_short_circuit [of ?nr "''c1''" test_state "Suc 0" test_env]
    unfolding run by (simp add: issued_def test_state_def)
qed

text \<open>
  C6 as stated fails for a supplied \<open>contactMethodID\<close> that is the empty string:
  \<open>!nr.contactMethodID\<close> holds, a contact method is created and the rule refers to it.
\<close>

theorem empty_contactMethodID_counterexample:
  "issued test_state
     (snd (addNotificationRule (Suc (Suc 0)) test_env
        (Some \<lparr>nro_userID = Some ''u1'', nro_delayMinutes = Some 5,
               nro_contactMethodID = Some [], nro_contactMethod = None\<rparr>) test_state)) =
     [Graphql2 (CreateUserContactMethod
        \<lparr>cmi_userID = ''u1'', cmi_name = ''SM CM qwertyui'', cmi_type = VOICE,
         cmi_value = ''+17633000007''\<rparr>),
      Graphql2 (CreateUserNotificationRule
        \<lparr>nri_userID = ''u1'', nri_contactMethodID = ''cm10'', nri_delayMinutes = 5\<rparr>)]"
  by (simp add: run_defs)

text \<open>A supplied \<open>delayMinutes\<close> other than \<open>0\<close> is the one the creation mutation carries.\<close>

lemma nonzero_delayMinutes_sent:
  assumes "truthy_string (nro_userID nr)" and "truthy_string (nro_contactMethodID nr)"
    and "nro_delayMinutes nr = Some d" and "d \<noteq> 0"
  shows "issued s (snd (addNotificationRule (Suc n) env (Some nr) s)) =
     [Graphql2 (CreateUserNotificationRule
        \<lparr>nri_userID = the (nro_userID nr),
         nri_contactMethodID = the (nro_contactMethodID nr), nri_delayMinutes = d\<rparr>)]"
  using addNotificationRule_direct [OF assms(1,2), of n env s] assms(3,4) by auto

text \<open>
  A supplied \<open>delayMinutes\<close> of \<open>0\<close> is falsy, so \<open>||\<close> sends the integer drawn from
  0..15 in its place, whatever the generator and the remote system are.
\<close>

lemma zero_delayMinutes_replaced:
  "issued s
     (snd (addNotificationRule (Suc n) env
        (Some \<lparr>nro_userID = Some ''u1'', nro_delayMinutes = Some 0,
               nro_contactMethodID = Some ''c1'', nro_contactMethod = None\<rparr>) s)) =
     [Graphql2 (CreateUserNotificationRule
        \<lparr>nri_userID = ''u1'', nri_contactMethodID = ''c1'',
         nri_delayMinutes = fst (c_integer env 0 15 (world s))\<rparr>)]"
proof -
  let ?nr = "\<lparr>nro_userID = Some ''u1'', nro_delayMinutes = Some 0,
               nro_contactMethodID = Some ''c1'', nro_contactMethod = None\<rparr>"
  have "truthy_string (nro_userID ?nr)" and "truthy_string (nro_contactMethodID ?nr)"
    by simp_all
  from addNotificationRule_direct [OF this, of n env s] show ?thesis
    by auto
qed

text \<open>
  C2 says that a supplied \<open>delayMinutes\<close>, \<open>0\<close> included, is the \<open>delayMinutes\<close> of the
  creation mutation.  With \<open>delayMinutes: 0\<close> supplied and a generator that draws \<open>7\<close>,
  the mutation carries \<open>7\<close>.
\<close>

theorem zero_delayMinutes_example:
  "issued test_state
     (snd (addNotificationRule (Suc 0) test_env
        (Some \<lparr>nro_userID = Some ''u1'', nro_delayMinutes = Some 0,
               nro_contactMethodID = Some ''c1'', nro_contactMethod = None\<rparr>) test_state)) =
     [Graphql2 (CreateUserNotificationRule
        \<lparr>nri_userID = ''u1'', nri_contactMethodID = ''c1'', nri_delayMinutes = 7\<rparr>)]"
  by (simp add: run_defs)


lemma cy_then_run: "m s = (Returned a, s1) \<Longrightarrow> cy_then m f s = f a s1"
  by (simp add: cy_then_def)

lemma cy_then_stop:
  assumes "\<forall>a. fst (m s) \<noteq> Returned a"
  shows "snd (cy_then m f s) = snd (m s) \<and> fst (cy_then m f s) = (case fst (m s) of Failed e \<Rightarrow> Failed e | _ \<Rightarrow> Diverged)"
  using assms by (cases "m s"; cases "fst (m s)") (simp_all add: cy_then_def)

lemma resolves_unique:
  "userID_resolves_to env x u \<Longrightarrow> userID_resolves_to env x v \<Longrightarrow> u = v"
  by (auto simp: userID_resolves_to_def split: if_splits sum.splits)

lemma spread_userID [simp]: "cmo_userID (spread_contactMethod c u) = u"
  by (simp add: spread_contactMethod_def)

lemma contact_methods_owned:
  "\<exists>ops. trace (snd (addNotificationRule n env nro s)) = trace s @ ops \<and>
     (\<forall>i. Graphql2 (CreateUserContactMethod i) \<in> set ops \<longrightarrow>
        userID_resolves_to env
          (nro_userID (case nro of None \<Rightarrow> no_NotificationRuleOptions | Some v \<Rightarrow> v))
          (cmi_userID i))"
proof (induction n arbitrary: nro s)
  case 0
  show ?case by simp
next
  case (Suc n)
  define nr where "nr = (case nro of None \<Rightarrow> no_NotificationRuleOptions | Some v \<Rightarrow> v)"
  show ?case
  proof (cases "truthy_string (nro_userID nr)")
    case False
    note res = addNotificationRule_resolve [of nro n env s, folded nr_def, OF False]
    show ?thesis
    proof (cases "fixture env ''profile''")
      case (Inl e)
      with res show ?thesis by simp
    next
      case (Inr prof)
      let ?nro = "Some (nr\<lparr>nro_userID := Some (p_id prof)\<rparr>)"
      have e: "addNotificationRule (Suc n) env nro s = addNotificationRule n env ?nro s"
        using res Inr by simp
      from Suc.IH [of ?nro s] obtain ops where
        t: "trace (snd (addNotificationRule n env ?nro s)) = trace s @ ops" and
        o: "\<forall>i. Graphql2 (CreateUserContactMethod i) \<in> set ops \<longrightarrow>
              userID_resolves_to env (Some (p_id prof)) (cmi_userID i)"
        by auto
      have "\<forall>i. Graphql2 (CreateUserContactMethod i) \<in> set ops \<longrightarrow>
              userID_resolves_to env (nro_userID nr) (cmi_userID i)"
        using o resolves_after_fixture [OF False Inr] by blast
      with t show ?thesis unfolding nr_def [symmetric] e by blast
    qed
  next
    case True
    have nro: "nro = Some nr"
      using options_of_truthy_userID [of nro] True by (simp add: nr_def)
    show ?thesis
    proof (cases "truthy_string (nro_contactMethodID nr)")
      case cmid: True
      from addNotificationRule_direct [OF True cmid, of n env s] obtain inp w where
        run: "addNotificationRule (Suc n) env (Some nr) s =
          (case fst (graphql2 env (CreateUserNotificationRule inp) w) of
             Inl e \<Rightarrow> Failed e
           | Inr (CreateUserNotificationRuleData r) \<Rightarrow>
               Returned (stamp_notificationRule (the (nro_userID nr)) r)
           | Inr _ \<Rightarrow> Failed TypeError,
           \<lparr>world = snd (graphql2 env (CreateUserNotificationRule inp) w),
            trace = trace s @ [Graphql2 (CreateUserNotificationRule inp)]\<rparr>)"
        by auto
      show ?thesis
        unfolding nr_def [symmetric] unfolding nro run
        by (intro exI [of _ "[Graphql2 (CreateUserNotificationRule inp)]"]) simp
    next
      case False
      let ?cmo = "Some (spread_contactMethod (nro_contactMethod nr) (nro_userID nr))"
      let ?next = "\<lambda>cm. addNotificationRule n env
          (Some (nr\<lparr>nro_contactMethodID := Some (cm_id cm)\<rparr>))"
      note run = addNotificationRule_create [OF True False, of n env s]
      from addContactMethod_issued [of n env ?cmo s] obtain ops1 where
        t1: "trace (snd (addContactMethod n env ?cmo s)) = trace s @ ops1" and
        o1: "ops1 = [] \<or>
          (\<exists>inp. ops1 = [Graphql2 (CreateUserContactMethod inp)] \<and>
             userID_resolves_to env (nro_userID nr) (cmi_userID inp))"
        by auto
      then have o1': "\<forall>i. Graphql2 (CreateUserContactMethod i) \<in> set ops1 \<longrightarrow>
              userID_resolves_to env (nro_userID nr) (cmi_userID i)"
        by auto
      show ?thesis
      proof (cases "\<exists>cm. fst (addContactMethod n env ?cmo s) = Returned cm")
        case True
        then obtain cm s1 where a: "addContactMethod n env ?cmo s = (Returned cm, s1)"
          by (cases "addContactMethod n env ?cmo s") auto
        have e: "addNotificationRule (Suc n) env (Some nr) s = ?next cm s1"
          unfolding run using a by (rule cy_then_run)
        from Suc.IH [of "Some (nr\<lparr>nro_contactMethodID := Some (cm_id cm)\<rparr>)" s1] obtain ops2
          where t2: "trace (snd (?next cm s1)) = trace s1 @ ops2" and
            o2: "\<forall>i. Graphql2 (CreateUserContactMethod i) \<in> set ops2 \<longrightarrow>
              userID_resolves_to env (nro_userID nr) (cmi_userID i)"
          by auto
        have "trace (snd (?next cm s1)) = trace s @ (ops1 @ ops2)"
          using t1 t2 a by simp
        moreover have "\<forall>i. Graphql2 (CreateUserContactMethod i) \<in> set (ops1 @ ops2) \<longrightarrow>
              userID_resolves_to env (nro_userID nr) (cmi_userID i)"
          using o1' o2 by auto
        ultimately show ?thesis unfolding nr_def [symmetric] unfolding nro e by blast
      next
        case False
        then have "\<forall>a. fst (addContactMethod n env ?cmo s) \<noteq> Returned a" by simp
        from cy_then_stop [of "addContactMethod n env ?cmo" s ?next, OF this]
        have "trace (snd (addNotificationRule (Suc n) env (Some nr) s)) = trace s @ ops1"
          unfolding run using t1 by simp
        with o1' show ?thesis unfolding nr_def [symmetric] unfolding nro by blast
      qed
    qed
  qed
qed

lemma first_issued_is_contact_method:
  assumes "\<not> truthy_string
     (nro_contactMethodID (case nro of None \<Rightarrow> no_NotificationRuleOptions | Some v \<Rightarrow> v))"
    and "addNotificationRule n env nro s = (Returned r, s')"
  shows "\<exists>i rest. trace s' = trace s @ Graphql2 (CreateUserContactMethod i) # rest"
  using assms
proof (induction n arbitrary: nro s)
  case 0
  then show ?case by simp
next
  case (Suc n)
  define nr where "nr = (case nro of None \<Rightarrow> no_NotificationRuleOptions | Some v \<Rightarrow> v)"
  have cmid: "\<not> truthy_string (nro_contactMethodID nr)" using Suc.prems(1) by (simp add: nr_def)
  show ?case
  proof (cases "truthy_string (nro_userID nr)")
    case False
    note res = addNotificationRule_resolve [of nro n env s, folded nr_def, OF False]
    show ?thesis
    proof (cases "fixture env ''profile''")
      case (Inl e)
      with res Suc.prems(2) show ?thesis by simp
    next
      case (Inr prof)
      let ?nro = "Some (nr\<lparr>nro_userID := Some (p_id prof)\<rparr>)"
      have "addNotificationRule n env ?nro s = (Returned r, s')"
        using res Inr Suc.prems(2) by simp
      moreover have "\<not> truthy_string
         (nro_contactMethodID (case ?nro of None \<Rightarrow> no_NotificationRuleOptions | Some v \<Rightarrow> v))"
        using cmid by simp
      ultimately show ?thesis by (rule Suc.IH [rotated])
    qed
  next
    case True
    have nro: "nro = Some nr"
      using options_of_truthy_userID [of nro] True by (simp add: nr_def)
    let ?cmo = "Some (spread_contactMethod (nro_contactMethod nr) (nro_userID nr))"
    from Suc.prems(2) obtain cm s1 where
      a: "addContactMethod n env ?cmo s = (Returned cm, s1)" and
      b: "addNotificationRule n env (Some (nr\<lparr>nro_contactMethodID := Some (cm_id cm)\<rparr>)) s1 =
            (Returned r, s')"
      unfolding nro addNotificationRule_create [OF True cmid]
      by (rule cy_then_Returned)
    from addContactMethod_issued [of n env ?cmo s] a obtain inp where
      t1: "trace s1 = trace s @ [Graphql2 (CreateUserContactMethod inp)]"
      by auto
    from contact_methods_owned
      [of n env "Some (nr\<lparr>nro_contactMethodID := Some (cm_id cm)\<rparr>)" s1] b
    obtain ops where "trace s' = trace s1 @ ops" by auto
    with t1 show ?thesis by simp
  qed
qed

text \<open>
  C10.  When the options carry no truthy \<open>contactMethodID\<close>, every contact method that
  \<open>addNotificationRule\<close> creates is created with the rule's resolved \<open>userID\<close>,
  whatever \<open>userID\<close> the nested contact method options name; and a run that returns
  a rule created a contact method first, with the \<open>userID\<close> of the returned rule.
\<close>

theorem implicit_contact_method_owner:
  assumes "\<not> truthy_string
     (nro_contactMethodID (case nro of None \<Rightarrow> no_NotificationRuleOptions | Some v \<Rightarrow> v))"
  shows "(\<forall>i. Graphql2 (CreateUserContactMethod i) \<in>
               set (issued s (snd (addNotificationRule n env nro s))) \<longrightarrow>
            userID_resolves_to env
              (nro_userID (case nro of None \<Rightarrow> no_NotificationRuleOptions | Some v \<Rightarrow> v))
              (cmi_userID i)) \<and>
         (\<forall>r. fst (addNotificationRule n env nro s) = Returned r \<longrightarrow>
            (\<exists>i rest. issued s (snd (addNotificationRule n env nro s)) =
                        Graphql2 (CreateUserContactMethod i) # rest \<and>
                      cmi_userID i = nr_userID r))"
proof -
  define nr where "nr = (case nro of None \<Rightarrow> no_NotificationRuleOptions | Some v \<Rightarrow> v)"
  from contact_methods_owned [of n env nro s] obtain ops where
    t: "trace (snd (addNotificationRule n env nro s)) = trace s @ ops" and
    o: "\<forall>i. Graphql2 (CreateUserContactMethod i) \<in> set ops \<longrightarrow>
          userID_resolves_to env (nro_userID nr) (cmi_userID i)"
    unfolding nr_def by blast
  have i: "issued s (snd (addNotificationRule n env nro s)) = ops" using t by simp
  have "\<exists>i rest. ops = Graphql2 (CreateUserContactMethod i) # rest \<and> cmi_userID i = nr_userID r"
    if ret: "fst (addNotificationRule n env nro s) = Returned r" for r
  proof -
    define s' where "s' = snd (addNotificationRule n env nro s)"
    have run: "addNotificationRule n env nro s = (Returned r, s')"
      using ret by (simp add: prod_eq_iff s'_def)
    from first_issued_is_contact_method [OF assms run] t [folded s'_def] obtain j rest where
      f: "ops = Graphql2 (CreateUserContactMethod j) # rest"
      by auto
    then have "userID_resolves_to env (nro_userID nr) (cmi_userID j)" using o by simp
    moreover have "userID_resolves_to env (nro_userID nr) (nr_userID r)"
      using addNotificationRule_returned [OF run] by (simp add: nr_def)
    ultimately have "cmi_userID j = nr_userID r" by (rule resolves_unique)
    with f show ?thesis by blast
  qed
  with o show ?thesis unfolding i nr_def by blast
qed

theorem implicit_contact_method_owner_witness:
  "\<exists>i rest.
     issued test_state
       (snd (addNotificationRule (Suc (Suc 0)) test_env
          (Some \<lparr>nro_userID = Some ''u1'', nro_delayMinutes = Some 5,
                 nro_contactMethodID = None,
                 nro_contactMethod =
                   Some \<lparr>cmo_userID = Some ''other'', cmo_name = Some ''Pager'',
                         cmo_type = Some SMS, cmo_value = Some ''+17635550100''\<rparr>\<rparr>)
          test_state)) =
       Graphql2 (CreateUserContactMethod i) # rest \<and>
     cmi_userID i = ''u1'' \<and> userID_resolves_to test_env (Some ''u1'') (cmi_userID i)"
proof -
  let ?nr = "\<lparr>nro_userID = Some ''u1'', nro_delayMinutes = Some 5,
                 nro_contactMethodID = None,
                 nro_contactMethod =
                   Some \<lparr>cmo_userID = Some ''other'', cmo_name = Some ''Pager'',
                         cmo_type = Some SMS, cmo_value = Some ''+17635550100''\<rparr>\<rparr>"
  have run: "addNotificationRule (Suc (Suc 0)) test_env (Some ?nr) test_state =
    (Returned
       \<lparr>nr_id = ''nr9'', nr_userID = ''u1'', nr_contactMethodID = ''cm8'',
        nr_contactMethod =
          \<lparr>cm_id = ''cm8'', cm_userID = ''u1'', cm_name = ''held'',
           cm_type = SMS, cm_value = ''+17633000000''\<rparr>,
        nr_delayMinutes = 5\<rparr>,
     \<lparr>world = \<lparr>tick = 10, held = [(''cm8'', ''u1'')]\<rparr>,
      trace =
        [Graphql2 (CreateUserContactMethod
           \<lparr>cmi_userID = ''u1'', cmi_name = ''Pager'', cmi_type = SMS,
            cmi_value = ''+17635550100''\<rparr>),
         Graphql2 (CreateUserNotificationRule
           \<lparr>nri_userID = ''u1'', nri_contactMethodID = ''cm8'',
            nri_delayMinutes = 5\<rparr>)]\<rparr>)"
    by (simp add: run_defs)
  show ?thesis
    using implicit_contact_method_owner [of "Some ?nr" test_state "Suc (Suc 0)" test_env]
    unfolding run by (simp add: issued_def test_state_def)
qed


section \<open>Termination of the dependency resolution\<close>

lemma cy_then_agree:
  assumes "\<And>a s1. m s = (Returned a, s1) \<Longrightarrow> f a s1 = g a s1"
  shows "cy_then m f s = cy_then m g s"
  using assms by (auto simp: cy_then_def split: prod.splits outcome.splits)

lemma cy_then_returns:
  assumes "fst (m s) \<noteq> Diverged"
    and "\<And>a s1. m s = (Returned a, s1) \<Longrightarrow> fst (f a s1) \<noteq> Diverged"
  shows "fst (cy_then m f s) \<noteq> Diverged"
  using assms by (auto simp: cy_then_def split: prod.splits outcome.splits)

lemma addContactMethod_depth_one:
  "truthy_string (cmo_userID cm) \<Longrightarrow>
   addContactMethod (Suc n) env (Some cm) s = addContactMethod (Suc 0) env (Some cm) s"
  by (simp add: addContactMethod.simps Let_def)

lemma addContactMethod_direct_cases:
  assumes "truthy_string (cmo_userID cm)"
  obtains (failed) e where "fst (addContactMethod (Suc n) env (Some cm) s) = Failed e"
  | (returned) inp w d where
      "fst (graphql2 env (CreateUserContactMethod inp) w) = Inr (CreateUserContactMethodData d)"
      "fst (addContactMethod (Suc n) env (Some cm) s) =
         Returned (stamp_contactMethod (the (cmo_userID cm)) d)"
proof -
  from addContactMethod_direct [OF assms, of n env s] obtain inp w where
    run: "addContactMethod (Suc n) env (Some cm) s =
       (case fst (graphql2 env (CreateUserContactMethod inp) w) of
          Inl e \<Rightarrow> Failed e
        | Inr (CreateUserContactMethodData r) \<Rightarrow>
            Returned (stamp_contactMethod (the (cmo_userID cm)) r)
        | Inr _ \<Rightarrow> Failed TypeError,
        \<lparr>world = snd (graphql2 env (CreateUserContactMethod inp) w),
         trace = trace s @ [Graphql2 (CreateUserContactMethod inp)]\<rparr>)"
    by blast
  show thesis
  proof (cases "fst (graphql2 env (CreateUserContactMethod inp) w)")
    case (Inl e)
    then show thesis using failed [of e] by (simp add: run)
  next
    case (Inr x)
    then show thesis
      using failed [of TypeError] returned [of inp w] by (cases x) (simp_all add: run)
  qed
qed

lemma addContactMethod_direct_returns:
  assumes "truthy_string (cmo_userID cm)"
  shows "fst (addContactMethod (Suc n) env (Some cm) s) \<noteq> Diverged"
  using assms by (cases rule: addContactMethod_direct_cases [of cm n env s]) simp_all

lemma addContactMethod_returned_id:
  assumes "\<forall>i w d. fst (graphql2 env (CreateUserContactMethod i) w) =
             Inr (CreateUserContactMethodData d) \<longrightarrow> cmd_id d \<noteq> []"
    and "truthy_string (cmo_userID cm)"
    and "addContactMethod (Suc n) env (Some cm) s = (Returned c, s1)"
  shows "cm_id c \<noteq> []"
  using assms(2)
proof (cases rule: addContactMethod_direct_cases [of cm n env s])
  case (failed e)
  with assms(3) show ?thesis by simp
next
  case (returned inp w d)
  with assms(3) have "c = stamp_contactMethod (the (cmo_userID cm)) d" by simp
  moreover have "cmd_id d \<noteq> []" using assms(1) returned(1) by blast
  ultimately show ?thesis by (simp add: stamp_contactMethod_def)
qed

lemma options_of_truthy_cm_userID:
  assumes "truthy_string
     (cmo_userID (case cmo of None \<Rightarrow> no_ContactMethodOptions | Some v \<Rightarrow> v))"
  shows "cmo = Some (case cmo of None \<Rightarrow> no_ContactMethodOptions | Some v \<Rightarrow> v)"
  using assms by (cases cmo) (simp_all add: no_ContactMethodOptions_def)

lemma addContactMethod_two_levels:
  assumes "\<forall>prof. fixture env ''profile'' = Inr prof \<longrightarrow> p_id prof \<noteq> []"
  shows "addContactMethod (Suc (Suc n)) env cmo s = addContactMethod (Suc (Suc 0)) env cmo s \<and>
         fst (addContactMethod (Suc (Suc n)) env cmo s) \<noteq> Diverged"
proof -
  define cm where "cm = (case cmo of None \<Rightarrow> no_ContactMethodOptions | Some v \<Rightarrow> v)"
  show ?thesis
  proof (cases "truthy_string (cmo_userID cm)")
    case True
    have cmo: "cmo = Some cm"
      using options_of_truthy_cm_userID [of cmo] True by (simp add: cm_def)
    show ?thesis
      unfolding cmo
      using addContactMethod_depth_one [OF True, of "Suc n" env s]
        addContactMethod_depth_one [OF True, of "Suc 0" env s]
        addContactMethod_direct_returns [OF True, of "Suc n" env s]
      by simp
  next
    case False
    note res = addContactMethod_resolve [of cmo _ env s, folded cm_def, OF False]
    show ?thesis
    proof (cases "fixture env ''profile''")
      case (Inl e)
      show ?thesis unfolding res Inl by simp
    next
      case (Inr prof)
      with assms have "truthy_string (cmo_userID (cm\<lparr>cmo_userID := Some (p_id prof)\<rparr>))"
        by simp
      from addContactMethod_depth_one [OF this, of n env s]
        addContactMethod_direct_returns [OF this, of n env s]
      show ?thesis unfolding res Inr sum.case by metis
    qed
  qed
qed

lemma addNotificationRule_depth_one:
  "truthy_string (nro_userID nr) \<Longrightarrow> truthy_string (nro_contactMethodID nr) \<Longrightarrow>
   addNotificationRule (Suc n) env (Some nr) s = addNotificationRule (Suc 0) env (Some nr) s"
  by (simp add: addNotificationRule.simps Let_def)

lemma addNotificationRule_direct_returns:
  assumes "truthy_string (nro_userID nr)" and "truthy_string (nro_contactMethodID nr)"
  shows "fst (addNotificationRule (Suc n) env (Some nr) s) \<noteq> Diverged"
proof -
  from addNotificationRule_direct [OF assms, of n env s] obtain inp w where
    run: "addNotificationRule (Suc n) env (Some nr) s =
       (case fst (graphql2 env (CreateUserNotificationRule inp) w) of
          Inl e \<Rightarrow> Failed e
        | Inr (CreateUserNotificationRuleData r) \<Rightarrow>
            Returned (stamp_notificationRule (the (nro_userID nr)) r)
        | Inr _ \<Rightarrow> Failed TypeError,
        \<lparr>world = snd (graphql2 env (CreateUserNotificationRule inp) w),
         trace = trace s @ [Graphql2 (CreateUserNotificationRule inp)]\<rparr>)"
    by blast
  show ?thesis unfolding run by (simp split: sum.splits gql_response.splits)
qed

lemma addNotificationRule_known_user:
  assumes ids: "\<forall>i w d. fst (graphql2 env (CreateUserContactMethod i) w) =
             Inr (CreateUserContactMethodData d) \<longrightarrow> cmd_id d \<noteq> []"
    and user: "truthy_string (nro_userID nr)"
  shows "addNotificationRule (Suc (Suc n)) env (Some nr) s =
           addNotificationRule (Suc (Suc 0)) env (Some nr) s \<and>
         fst (addNotificationRule (Suc (Suc n)) env (Some nr) s) \<noteq> Diverged"
proof (cases "truthy_string (nro_contactMethodID nr)")
  case True
  show ?thesis
    using addNotificationRule_depth_one [OF user True, of "Suc n" env s]
      addNotificationRule_depth_one [OF user True, of "Suc 0" env s]
      addNotificationRule_direct_returns [OF user True, of "Suc n" env s]
    by simp
next
  case False
  let ?cmo = "spread_contactMethod (nro_contactMethod nr) (nro_userID nr)"
  let ?next = "\<lambda>k cm. addNotificationRule k env
          (Some (nr\<lparr>nro_contactMethodID := Some (cm_id cm)\<rparr>))"
  have cu: "truthy_string (cmo_userID ?cmo)" using user by simp
  have m: "addContactMethod (Suc n) env (Some ?cmo) = addContactMethod (Suc 0) env (Some ?cmo)"
    using addContactMethod_depth_one [OF cu, of n env] by (intro ext)
  have step: "?next (Suc n) c s1 = ?next (Suc 0) c s1 \<and> fst (?next (Suc n) c s1) \<noteq> Diverged"
    if "addContactMethod (Suc 0) env (Some ?cmo) s = (Returned c, s1)" for c s1
  proof -
    have "cm_id c \<noteq> []" using ids cu that by (rule addContactMethod_returned_id)
    then have c: "truthy_string (nro_contactMethodID (nr\<lparr>nro_contactMethodID := Some (cm_id c)\<rparr>))"
      by simp
    have u: "truthy_string (nro_userID (nr\<lparr>nro_contactMethodID := Some (cm_id c)\<rparr>))"
      using user by simp
    show ?thesis
      using addNotificationRule_depth_one [OF u c, of n env s1]
        addNotificationRule_direct_returns [OF u c, of n env s1]
      by simp
  qed
  have "cy_then (addContactMethod (Suc 0) env (Some ?cmo)) (?next (Suc n)) s =
        cy_then (addContactMethod (Suc 0) env (Some ?cmo)) (?next (Suc 0)) s"
    using step by (intro cy_then_agree) simp
  moreover have "fst (cy_then (addContactMethod (Suc 0) env (Some ?cmo)) (?next (Suc n)) s) \<noteq>
      Diverged"
    using addContactMethod_direct_returns [OF cu, of 0 env s] step
    by (intro cy_then_returns) metis+
  ultimately show ?thesis
    unfolding addNotificationRule_create [OF user False] m by simp
qed

lemma addNotificationRule_three_levels:
  assumes "\<forall>prof. fixture env ''profile'' = Inr prof \<longrightarrow> p_id prof \<noteq> []"
    and ids: "\<forall>i w d. fst (graphql2 env (CreateUserContactMethod i) w) =
             Inr (CreateUserContactMethodData d) \<longrightarrow> cmd_id d \<noteq> []"
  shows "addNotificationRule (Suc (Suc (Suc n))) env nro s =
           addNotificationRule (Suc (Suc (Suc 0))) env nro s \<and>
         fst (addNotificationRule (Suc (Suc (Suc n))) env nro s) \<noteq> Diverged"
proof -
  define nr where "nr = (case nro of None \<Rightarrow> no_NotificationRuleOptions | Some v \<Rightarrow> v)"
  show ?thesis
  proof (cases "truthy_string (nro_userID nr)")
    case True
    have nro: "nro = Some nr"
      using options_of_truthy_userID [of nro] True by (simp add: nr_def)
    show ?thesis
      unfolding nro
      using addNotificationRule_known_user [OF ids True, of "Suc n" s]
        addNotificationRule_known_user [OF ids True, of "Suc 0" s]
      by metis
  next
    case False
    note res = addNotificationRule_resolve [of nro _ env s, folded nr_def, OF False]
    show ?thesis
    proof (cases "fixture env ''profile''")
      case (Inl e)
      show ?thesis unfolding res Inl by simp
    next
      case (Inr prof)
      with assms(1) have "truthy_string (nro_userID (nr\<lparr>nro_userID := Some (p_id prof)\<rparr>))"
        by simp
      from addNotificationRule_known_user [OF ids this, of n s]
      show ?thesis unfolding res Inr sum.case by metis
    qed
  qed
qed

text \<open>
  C7, as amended.  When the identifier of the active test subject and the identifier of
  every contact method the remote system creates are non-empty strings, the dependency
  resolution terminates for every input: \<open>addContactMethod\<close> returns or fails within two
  levels of invocation (the call and one retry) and \<open>addNotificationRule\<close> within three
  (the call and two retries), and a larger budget changes nothing.
\<close>

theorem dependency_resolution_terminates:
  assumes "\<forall>prof. fixture env ''profile'' = Inr prof \<longrightarrow> p_id prof \<noteq> []"
    and "\<forall>i w d. fst (graphql2 env (CreateUserContactMethod i) w) =
             Inr (CreateUserContactMethodData d) \<longrightarrow> cmd_id d \<noteq> []"
  shows "fst (addContactMethod (Suc (Suc n)) env cmo s) \<noteq> Diverged \<and>
         addContactMethod (Suc (Suc n)) env cmo s = addContactMethod (Suc (Suc 0)) env cmo s \<and>
         fst (addNotificationRule (Suc (Suc (Suc n))) env nro s) \<noteq> Diverged \<and>
         addNotificationRule (Suc (Suc (Suc n))) env nro s =
           addNotificationRule (Suc (Suc (Suc 0))) env nro s"
  using addContactMethod_two_levels [OF assms(1), of n cmo s]
    addNotificationRule_three_levels [OF assms, of n nro s]
  by metis

theorem dependency_resolution_terminates_witness:
  "fst (addContactMethod (Suc (Suc 4)) test_env None test_state) \<noteq> Diverged \<and>
   addContactMethod (Suc (Suc 4)) test_env None test_state =
     addContactMethod (Suc (Suc 0)) test_env None test_state \<and>
   fst (addNotificationRule (Suc (Suc (Suc 4))) test_env None test_state) \<noteq> Diverged \<and>
   addNotificationRule (Suc (Suc (Suc 4))) test_env None test_state =
     addNotificationRule (Suc (Suc (Suc 0))) test_env None test_state"
proof -
  have f: "\<forall>prof. fixture test_env ''profile'' = Inr prof \<longrightarrow> p_id prof \<noteq> []"
    by (auto simp: test_env_def test_profile_def)
  have g: "\<forall>i w d. fst (graphql2 test_env (CreateUserContactMethod i) w) =
             Inr (CreateUserContactMethodData d) \<longrightarrow> cmd_id d \<noteq> []"
    by (auto simp: test_env_def Let_def)
  show ?thesis by (rule dependency_resolution_terminates [OF f g])
qed

lemma addContactMethod_blank_subject:
  assumes "\<not> truthy_string
     (cmo_userID (case cmo of None \<Rightarrow> no_ContactMethodOptions | Some v \<Rightarrow> v))"
  shows "addContactMethod n blank_subject_env cmo s = (Diverged, s)"
  using assms
proof (induction n arbitrary: cmo)
  case 0
  show ?case by simp
next
  case (Suc n)
  have f: "fixture blank_subject_env ''profile'' = Inr (test_profile\<lparr>p_id := []\<rparr>)"
    by (simp add: blank_subject_env_def)
  show ?case
    unfolding addContactMethod_resolve [OF Suc.prems] f
    by (simp add: Suc.IH)
qed

lemma addNotificationRule_blank_subject:
  assumes "\<not> truthy_string
     (nro_userID (case nro of None \<Rightarrow> no_NotificationRuleOptions | Some v \<Rightarrow> v))"
  shows "addNotificationRule n blank_subject_env nro s = (Diverged, s)"
  using assms
proof (induction n arbitrary: nro)
  case 0
  show ?case by simp
next
  case (Suc n)
  have f: "fixture blank_subject_env ''profile'' = Inr (test_profile\<lparr>p_id := []\<rparr>)"
    by (simp add: blank_subject_env_def)
  show ?case
    unfolding addNotificationRule_resolve [OF Suc.prems] f
    by (simp add: Suc.IH)
qed

text \<open>
  C7 as stated fails when the active test subject has an empty identifier: the retried
  call carries a falsy \<open>userID\<close> again, and no budget is enough for \<open>addContactMethod({})\<close>
  or \<open>addNotificationRule({})\<close> to return.
\<close>

theorem blank_subject_counterexample:
  "fst (addContactMethod (Suc (Suc 0)) blank_subject_env None test_state) = Diverged \<and>
   fst (addNotificationRule (Suc (Suc (Suc 0))) blank_subject_env None test_state) = Diverged \<and>
   (\<forall>n. fst (addContactMethod n blank_subject_env None test_state) = Diverged \<and>
        fst (addNotificationRule n blank_subject_env None test_state) = Diverged)"
  by (simp add: addContactMethod_blank_subject addNotificationRule_blank_subject
      no_ContactMethodOptions_def no_NotificationRuleOptions_def)


section \<open>Cleanup\<close>











end
